theory Spec2Isabelle
  imports Complex_Main "HOL-Library.AList" "HOL-Library.Char_ord" "HOL-Library.List_Lexorder"
begin

section \<open>Python values\<close>

text \<open>
  The AVL system (\<^verbatim>\<open>fixed_avl_system.py\<close>) works on dictionaries decoded from JSON and on
  rows of pandas tables. Their leaves are scalars, modelled by \<open>pyval\<close>. A dictionary with
  string keys is an association list in insertion order; \<open>map_of\<close> is the lookup.

  A Python float is a finite value, an infinity or NaN (JSON decoding and pandas produce
  all of them). A finite float is idealised as a real number: arithmetic on finite floats
  is exact real arithmetic, without rounding, underflow or a signed zero.
\<close>

datatype pyfloat = Fin real | PosInf | NegInf | NaN

datatype pyval = PNone | PBool bool | PInt int | PFloat pyfloat | PStr string

datatype py_error = ValueError | TypeError | KeyError | OverflowError

type_synonym pydict = "(string \<times> pyval) list"

text \<open>
  The conversions between strings and numbers belong to the Python runtime and its
  libraries, not to this program. They are parameters of the model:
  \<open>int_of_str\<close> is \<^verbatim>\<open>int(s)\<close> and \<open>float_of_str\<close> is \<^verbatim>\<open>float(s)\<close> on a string
  (\<open>None\<close> where Python raises \<^verbatim>\<open>ValueError\<close>), \<open>float_repr\<close> is \<^verbatim>\<open>str(x)\<close> on a float,
  and \<open>strptime_ts\<close> is
  \<^verbatim>\<open>int(datetime.strptime(s, "%Y%m%d %H:%M:%S").timestamp())\<close>
  (\<open>None\<close> where \<^verbatim>\<open>strptime\<close> raises \<^verbatim>\<open>ValueError\<close>).

  So are three checks of the protobuf runtime: \<open>narrow32\<close> is the value that a 32-bit
  float field holds after a Python float has been assigned to it, and \<open>pb_cause\<close> and
  \<open>pb_effect\<close> are the assignments to the enum fields \<^verbatim>\<open>Alert.cause\<close> and \<^verbatim>\<open>Alert.effect\<close>
  (the enum value, or the error that the assignment raises).
\<close>

record runtime =
  int_of_str :: "string \<Rightarrow> int option"
  float_of_str :: "string \<Rightarrow> pyfloat option"
  float_repr :: "pyfloat \<Rightarrow> string"
  strptime_ts :: "string \<Rightarrow> int option"
  narrow32 :: "pyfloat \<Rightarrow> pyfloat"
  pb_cause :: "pyval \<Rightarrow> py_error + int"
  pb_effect :: "pyval \<Rightarrow> py_error + int"

text \<open>
  The clock of one call: \<^verbatim>\<open>time.time()\<close> and the two \<^verbatim>\<open>strftime\<close> renderings of
  \<^verbatim>\<open>datetime.now()\<close>. A builder reads the clock more than once; the model gives all reads of
  one call the same value.
\<close>

record clock =
  now :: real
  hms :: string
  ymd :: string

subsection \<open>\<^verbatim>\<open>str\<close>, \<^verbatim>\<open>int\<close>, \<^verbatim>\<open>float\<close> and truth values\<close>

definition digit_char :: "nat \<Rightarrow> char" where
  "digit_char d = char_of (48 + d)"

fun nat_digits :: "nat \<Rightarrow> string" where
  "nat_digits n = (if n < 10 then [digit_char n] else nat_digits (n div 10) @ [digit_char (n mod 10)])"

declare nat_digits.simps [simp del]

definition int_repr :: "int \<Rightarrow> string" where
  "int_repr i = (if i < 0 then CHR ''-'' # nat_digits (nat (- i)) else nat_digits (nat i))"

fun py_str :: "runtime \<Rightarrow> pyval \<Rightarrow> string" where
  "py_str R PNone = ''None''"
| "py_str R (PBool b) = (if b then ''True'' else ''False'')"
| "py_str R (PInt i) = int_repr i"
| "py_str R (PFloat x) = float_repr R x"
| "py_str R (PStr s) = s"

text \<open>\<^verbatim>\<open>int(x)\<close> on a finite float truncates towards zero; on NaN it raises \<^verbatim>\<open>ValueError\<close> and
  on an infinity \<^verbatim>\<open>OverflowError\<close>.\<close>

definition trunc :: "real \<Rightarrow> int" where
  "trunc x = (if 0 \<le> x then \<lfloor>x\<rfloor> else \<lceil>x\<rceil>)"

fun int_of_float :: "pyfloat \<Rightarrow> py_error + int" where
  "int_of_float (Fin x) = Inr (trunc x)"
| "int_of_float NaN = Inl ValueError"
| "int_of_float PosInf = Inl OverflowError"
| "int_of_float NegInf = Inl OverflowError"

fun py_int :: "runtime \<Rightarrow> pyval \<Rightarrow> py_error + int" where
  "py_int R PNone = Inl TypeError"
| "py_int R (PBool b) = Inr (if b then 1 else 0)"
| "py_int R (PInt i) = Inr i"
| "py_int R (PFloat x) = int_of_float x"
| "py_int R (PStr s) = (case int_of_str R s of None \<Rightarrow> Inl ValueError | Some i \<Rightarrow> Inr i)"

text \<open>
  \<^verbatim>\<open>float(i)\<close> on an integer raises \<^verbatim>\<open>OverflowError\<close> when \<open>i\<close> rounds to a value beyond the
  largest double \<open>2^1024 - 2^971\<close>, that is from \<open>2^1024 - 2^970\<close> on.
\<close>

definition float_of_int :: "int \<Rightarrow> py_error + pyfloat" where
  "float_of_int i =
     (if \<bar>i\<bar> < 2 ^ 1024 - 2 ^ 970 then Inr (Fin (of_int i)) else Inl OverflowError)"

fun py_float :: "runtime \<Rightarrow> pyval \<Rightarrow> py_error + pyfloat" where
  "py_float R PNone = Inl TypeError"
| "py_float R (PBool b) = Inr (Fin (if b then 1 else 0))"
| "py_float R (PInt i) = float_of_int i"
| "py_float R (PFloat x) = Inr x"
| "py_float R (PStr s) = (case float_of_str R s of None \<Rightarrow> Inl ValueError | Some x \<Rightarrow> Inr x)"

text \<open>Only zero is a false float: NaN and the infinities are true.\<close>

fun truthy :: "pyval \<Rightarrow> bool" where
  "truthy PNone = False"
| "truthy (PBool b) = b"
| "truthy (PInt i) = (i \<noteq> 0)"
| "truthy (PFloat x) = (x \<noteq> Fin 0)"
| "truthy (PStr s) = (s \<noteq> [])"

text \<open>
  The checks of the protobuf runtime on an assignment: an integer outside the range of an
  integer field raises \<^verbatim>\<open>ValueError\<close>; anything but a string assigned to a string field
  raises \<^verbatim>\<open>TypeError\<close>.
\<close>

definition uint32 :: "int \<Rightarrow> py_error + int" where
  "uint32 i = (if 0 \<le> i \<and> i < 2 ^ 32 then Inr i else Inl ValueError)"

definition uint64 :: "int \<Rightarrow> py_error + int" where
  "uint64 i = (if 0 \<le> i \<and> i < 2 ^ 64 then Inr i else Inl ValueError)"

definition int64 :: "int \<Rightarrow> py_error + int" where
  "int64 i = (if - (2 ^ 63) \<le> i \<and> i < 2 ^ 63 then Inr i else Inl ValueError)"

fun pb_string :: "pyval \<Rightarrow> py_error + string" where
  "pb_string (PStr s) = Inr s"
| "pb_string _ = Inl TypeError"

text \<open>\<^verbatim>\<open>d.get(k)\<close> and \<^verbatim>\<open>d.get(k, default)\<close>.\<close>

definition get :: "pydict \<Rightarrow> string \<Rightarrow> pyval" where
  "get d k = (case map_of d k of None \<Rightarrow> PNone | Some v \<Rightarrow> v)"

definition get_or :: "pydict \<Rightarrow> string \<Rightarrow> pyval \<Rightarrow> pyval" where
  "get_or d k dflt = (case map_of d k of None \<Rightarrow> dflt | Some v \<Rightarrow> v)"

text \<open>\<^verbatim>\<open>d[k]\<close> raises \<^verbatim>\<open>KeyError\<close> on a missing key.\<close>

definition index :: "pydict \<Rightarrow> string \<Rightarrow> py_error + pyval" where
  "index d k = (case map_of d k of None \<Rightarrow> Inl KeyError | Some v \<Rightarrow> Inr v)"

text \<open>\<^verbatim>\<open>a <= b\<close>: strings compare lexicographically by code point, which on UTF-8 bytes is
  the byte-wise order; the trip selector only ever has a string on the right.\<close>

fun py_le_str :: "pyval \<Rightarrow> string \<Rightarrow> py_error + bool" where
  "py_le_str (PStr a) b = Inr (a \<le> b)"
| "py_le_str _ b = Inl TypeError"

section \<open>Trip selection\<close>

text \<open>
  The loop of \<^verbatim>\<open>process_data\<close> (lines 519--526) over \<^verbatim>\<open>route_info.get('trips', [])\<close>:
  \<open>scan_trips cur ts t\<close> is the value of \<^verbatim>\<open>current_trip\<close> when the loop over the remaining
  trips \<open>ts\<close> ends, started with \<^verbatim>\<open>current_trip = cur\<close>. The \<^verbatim>\<open>break\<close> ends the recursion.
\<close>

fun scan_trips :: "pydict option \<Rightarrow> pydict list \<Rightarrow> string \<Rightarrow> py_error + pydict option" where
  "scan_trips cur [] t = Inr cur"
| "scan_trips cur (trip # ts) t =
     (case py_le_str (get_or trip ''start_time'' (PStr '''')) t of
        Inl e \<Rightarrow> Inl e
      | Inr True \<Rightarrow> scan_trips (Some trip) ts t
      | Inr False \<Rightarrow> Inr cur)"

text \<open>
  Lines 519--541: the scan, then \<^verbatim>\<open>if current_trip:\<close> (a dictionary is true when it is
  not empty), else the first trip, else no trip.
\<close>

definition select_trip :: "pydict list \<Rightarrow> string \<Rightarrow> py_error + pydict option" where
  "select_trip ts t =
     (case scan_trips None ts t of
        Inl e \<Rightarrow> Inl e
      | Inr cur \<Rightarrow>
          (if cur \<noteq> None \<and> cur \<noteq> Some [] then Inr cur
           else (case ts of [] \<Rightarrow> Inr None | first # _ \<Rightarrow> Inr (Some first))))"

text \<open>
  The selector as the specification words it: the last trip of the longest prefix whose
  start times are all at most \<open>t\<close>, else the first trip, else nothing.
\<close>

definition start_time_le :: "string \<Rightarrow> pydict \<Rightarrow> bool" where
  "start_time_le t trip = (case get_or trip ''start_time'' (PStr '''') of PStr s \<Rightarrow> s \<le> t | _ \<Rightarrow> False)"

definition spec_select :: "pydict list \<Rightarrow> string \<Rightarrow> pydict option" where
  "spec_select ts t =
     (let scanned = takeWhile (start_time_le t) ts
      in if scanned \<noteq> [] then Some (last scanned)
         else (case ts of [] \<Rightarrow> None | first # _ \<Rightarrow> Some first))"

text \<open>A trip entry of the configuration: a non-empty dictionary whose \<^verbatim>\<open>start_time\<close>, when
  present, is a string.\<close>

definition wf_trip :: "pydict \<Rightarrow> bool" where
  "wf_trip trip = (trip \<noteq> [] \<and> (case map_of trip ''start_time'' of None \<Rightarrow> True | Some (PStr s) \<Rightarrow> True | Some _ \<Rightarrow> False))"

definition mk_trip :: "string \<Rightarrow> int \<Rightarrow> string \<Rightarrow> pydict" where
  "mk_trip tid dir st = [(''trip_id'', PStr tid), (''direction_id'', PInt dir), (''start_time'', PStr st)]"

definition three_trips :: "pydict list" where
  "three_trips = [mk_trip ''T1'' 0 ''06:00:00'', mk_trip ''T2'' 1 ''09:00:00'', mk_trip ''T3'' 0 ''14:00:00'']"

section \<open>The schedule index\<close>

text \<open>
  \<^verbatim>\<open>process_gtfs_data\<close> receives the tables that \<^verbatim>\<open>fetch_gtfs_static\<close> has read: a dictionary
  with an optional list of rows for each file that was present. \<^verbatim>\<open>calendar\<close> (or
  \<^verbatim>\<open>calendar_dates\<close>) is carried along and never read.
\<close>

record raw_gtfs =
  raw_routes :: "pydict list option"
  raw_trips :: "pydict list option"
  raw_stops :: "pydict list option"
  raw_stop_times :: "pydict list option"
  raw_calendar :: "pydict list option"

text \<open>The dictionaries that \<^verbatim>\<open>process_gtfs_data\<close> builds have fixed keys: they are records.\<close>

record route_rec =
  r_route_id :: string
  r_route_name :: pyval
  r_route_type :: pyval
  r_route_color :: pyval
  r_route_text_color :: pyval

record trip_rec =
  t_trip_id :: string
  t_route_id :: string
  t_service_id :: pyval
  t_direction_id :: int
  t_shape_id :: pyval
  t_wheelchair_accessible :: pyval

record stop_rec =
  s_stop_id :: string
  s_stop_name :: pyval
  s_stop_lat :: pyfloat
  s_stop_lon :: pyfloat
  s_stop_code :: pyval
  s_stop_desc :: pyval

record stop_seq =
  stop_sequence :: int
  q_stop_id :: string
  arrival_time :: pyval
  departure_time :: pyval
  stop_headsign :: pyval
  pickup_type :: pyval
  drop_off_type :: pyval

text \<open>An alert as \<^verbatim>\<open>create_service_alert\<close> reads it: scalar entries, and the optional list
  under \<^verbatim>\<open>affected_entities\<close>.\<close>

record alert_data =
  al_fields :: pydict
  al_affected :: "pyval list option"

text \<open>
  The processed schedule. \<^verbatim>\<open>process_data\<close> also asks whether it has the key \<^verbatim>\<open>alerts\<close>, so
  that key is an optional field.
\<close>

record processed =
  routes :: "(string \<times> route_rec) list"
  trips :: "(string \<times> trip_rec) list"
  stops :: "(string \<times> stop_rec) list"
  stop_sequences :: "(string \<times> stop_seq list) list"
  alerts :: "alert_data list option"

subsection \<open>\<^verbatim>\<open>process_gtfs_data\<close> (lines 154--226)\<close>

definition route_of_row :: "runtime \<Rightarrow> pydict \<Rightarrow> string \<times> route_rec" where
  "route_of_row R route =
     (let route_id = py_str R (get_or route ''route_id'' (PStr ''''))
      in (route_id,
          \<lparr>r_route_id = route_id,
           r_route_name = get_or route ''route_long_name'' (PStr ''''),
           r_route_type = get_or route ''route_type'' (PStr ''''),
           r_route_color = get_or route ''route_color'' (PStr ''''),
           r_route_text_color = get_or route ''route_text_color'' (PStr '''')\<rparr>))"

fun process_routes :: "runtime \<Rightarrow> pydict list \<Rightarrow> (string \<times> route_rec) list \<Rightarrow> (string \<times> route_rec) list" where
  "process_routes R [] acc = acc"
| "process_routes R (route # rest) acc =
     (case route_of_row R route of (k, v) \<Rightarrow> process_routes R rest (AList.update k v acc))"

definition trip_of_row :: "runtime \<Rightarrow> pydict \<Rightarrow> py_error + string \<times> trip_rec" where
  "trip_of_row R trip =
     (let trip_id = py_str R (get_or trip ''trip_id'' (PStr ''''));
          route_id = py_str R (get_or trip ''route_id'' (PStr ''''))
      in case py_int R (get_or trip ''direction_id'' (PInt 0)) of
           Inl e \<Rightarrow> Inl e
         | Inr direction_id \<Rightarrow>
             Inr (trip_id,
                  \<lparr>t_trip_id = trip_id,
                   t_route_id = route_id,
                   t_service_id = get_or trip ''service_id'' (PStr ''''),
                   t_direction_id = direction_id,
                   t_shape_id = get_or trip ''shape_id'' (PStr ''''),
                   t_wheelchair_accessible = get_or trip ''wheelchair_accessible'' (PStr '''')\<rparr>))"

fun process_trips :: "runtime \<Rightarrow> pydict list \<Rightarrow> (string \<times> trip_rec) list \<Rightarrow> py_error + (string \<times> trip_rec) list" where
  "process_trips R [] acc = Inr acc"
| "process_trips R (trip # rest) acc =
     (case trip_of_row R trip of
        Inl e \<Rightarrow> Inl e
      | Inr (k, v) \<Rightarrow> process_trips R rest (AList.update k v acc))"

definition stop_of_row :: "runtime \<Rightarrow> pydict \<Rightarrow> py_error + string \<times> stop_rec" where
  "stop_of_row R stop =
     (let stop_id = py_str R (get_or stop ''stop_id'' (PStr ''''))
      in case py_float R (get_or stop ''stop_lat'' (PFloat (Fin 0))) of
           Inl e \<Rightarrow> Inl e
         | Inr lat \<Rightarrow>
             (case py_float R (get_or stop ''stop_lon'' (PFloat (Fin 0))) of
                Inl e \<Rightarrow> Inl e
              | Inr lon \<Rightarrow>
                  Inr (stop_id,
                       \<lparr>s_stop_id = stop_id,
                        s_stop_name = get_or stop ''stop_name'' (PStr ''''),
                        s_stop_lat = lat,
                        s_stop_lon = lon,
                        s_stop_code = get_or stop ''stop_code'' (PStr ''''),
                        s_stop_desc = get_or stop ''stop_desc'' (PStr '''')\<rparr>)))"

fun process_stops :: "runtime \<Rightarrow> pydict list \<Rightarrow> (string \<times> stop_rec) list \<Rightarrow> py_error + (string \<times> stop_rec) list" where
  "process_stops R [] acc = Inr acc"
| "process_stops R (stop # rest) acc =
     (case stop_of_row R stop of
        Inl e \<Rightarrow> Inl e
      | Inr (k, v) \<Rightarrow> process_stops R rest (AList.update k v acc))"

definition stop_time_of_row :: "runtime \<Rightarrow> pydict \<Rightarrow> py_error + string \<times> stop_seq" where
  "stop_time_of_row R stop_time =
     (let trip_id = py_str R (get_or stop_time ''trip_id'' (PStr ''''));
          stop_id = py_str R (get_or stop_time ''stop_id'' (PStr ''''))
      in case py_int R (get_or stop_time ''stop_sequence'' (PInt 0)) of
           Inl e \<Rightarrow> Inl e
         | Inr sq \<Rightarrow>
             Inr (trip_id,
                  \<lparr>stop_sequence = sq,
                   q_stop_id = stop_id,
                   arrival_time = get_or stop_time ''arrival_time'' (PStr ''''),
                   departure_time = get_or stop_time ''departure_time'' (PStr ''''),
                   stop_headsign = get_or stop_time ''stop_headsign'' (PStr ''''),
                   pickup_type = get_or stop_time ''pickup_type'' (PStr ''''),
                   drop_off_type = get_or stop_time ''drop_off_type'' (PStr '''')\<rparr>))"

text \<open>Lines 209--220: a new trip gets the empty list, then the entry is appended.\<close>

definition append_entry :: "string \<Rightarrow> stop_seq \<Rightarrow> (string \<times> stop_seq list) list \<Rightarrow> (string \<times> stop_seq list) list" where
  "append_entry trip_id entry acc =
     (let acc' = (if map_of acc trip_id = None then AList.update trip_id [] acc else acc)
      in AList.map_entry trip_id (\<lambda>es. es @ [entry]) acc')"

fun process_stop_times :: "runtime \<Rightarrow> pydict list \<Rightarrow> (string \<times> stop_seq list) list \<Rightarrow> py_error + (string \<times> stop_seq list) list" where
  "process_stop_times R [] acc = Inr acc"
| "process_stop_times R (stop_time # rest) acc =
     (case stop_time_of_row R stop_time of
        Inl e \<Rightarrow> Inl e
      | Inr (k, v) \<Rightarrow> process_stop_times R rest (append_entry k v acc))"

text \<open>Lines 222--224: \<^verbatim>\<open>list.sort(key=...)\<close> is stable, as \<open>sort_key\<close> is.\<close>

definition sort_sequences :: "(string \<times> stop_seq list) list \<Rightarrow> (string \<times> stop_seq list) list" where
  "sort_sequences sq = map (\<lambda>(trip_id, es). (trip_id, sort_key stop_sequence es)) sq"

definition process_gtfs_data :: "runtime \<Rightarrow> raw_gtfs \<Rightarrow> py_error + processed" where
  "process_gtfs_data R gtfs_data =
     (let rs = (case raw_routes gtfs_data of None \<Rightarrow> [] | Some rows \<Rightarrow> process_routes R rows [])
      in case (case raw_trips gtfs_data of None \<Rightarrow> Inr [] | Some rows \<Rightarrow> process_trips R rows []) of
           Inl e \<Rightarrow> Inl e
         | Inr ts \<Rightarrow>
        (case (case raw_stops gtfs_data of None \<Rightarrow> Inr [] | Some rows \<Rightarrow> process_stops R rows []) of
           Inl e \<Rightarrow> Inl e
         | Inr ss \<Rightarrow>
        (case (case raw_stop_times gtfs_data of None \<Rightarrow> Inr [] | Some rows \<Rightarrow> process_stop_times R rows []) of
           Inl e \<Rightarrow> Inl e
         | Inr sq \<Rightarrow>
             Inr \<lparr>routes = rs, trips = ts, stops = ss,
                  stop_sequences = sort_sequences sq, alerts = None\<rparr>)))"

subsection \<open>\<^verbatim>\<open>get_trip_stops\<close> (lines 228--244)\<close>

record trip_stop =
  ts_stop_sequence :: int
  ts_stop_id :: string
  ts_stop_name :: pyval
  ts_arrival_time :: pyval
  ts_departure_time :: pyval

definition joined :: "stop_seq \<Rightarrow> stop_rec \<Rightarrow> trip_stop" where
  "joined stop_seq stop_info =
     \<lparr>ts_stop_sequence = stop_sequence stop_seq,
      ts_stop_id = q_stop_id stop_seq,
      ts_stop_name = s_stop_name stop_info,
      ts_arrival_time = arrival_time stop_seq,
      ts_departure_time = departure_time stop_seq\<rparr>"

fun join_stops :: "(string \<times> stop_rec) list \<Rightarrow> stop_seq list \<Rightarrow> trip_stop list" where
  "join_stops st [] = []"
| "join_stops st (stop_seq # rest) =
     (case map_of st (q_stop_id stop_seq) of
        Some stop_info \<Rightarrow> joined stop_seq stop_info # join_stops st rest
      | None \<Rightarrow> join_stops st rest)"

definition get_trip_stops :: "string \<Rightarrow> processed \<Rightarrow> trip_stop list" where
  "get_trip_stops trip_id gtfs_data =
     (case map_of (stop_sequences gtfs_data) trip_id of
        Some entries \<Rightarrow> join_stops (stops gtfs_data) entries
      | None \<Rightarrow> [])"

text \<open>The join as the specification words it: every stop-sequence entry that has a stop
  record, paired with that record, in the stored order.\<close>

definition spec_trip_stops :: "string \<Rightarrow> processed \<Rightarrow> trip_stop list" where
  "spec_trip_stops trip_id idx =
     (case map_of (stop_sequences idx) trip_id of
        None \<Rightarrow> []
      | Some entries \<Rightarrow>
          List.map_filter (\<lambda>e. map_option (joined e) (map_of (stops idx) (q_stop_id e))) entries)"

text \<open>The numeric fields of the raw rows convert: what \<^verbatim>\<open>int\<close> and \<^verbatim>\<open>float\<close> need in order not
  to raise in \<^verbatim>\<open>process_gtfs_data\<close>.\<close>

definition rows_of :: "pydict list option \<Rightarrow> pydict list" where
  "rows_of tbl = (case tbl of None \<Rightarrow> [] | Some rows \<Rightarrow> rows)"

definition int_field_ok :: "runtime \<Rightarrow> string \<Rightarrow> pydict \<Rightarrow> bool" where
  "int_field_ok R k row = (\<not> isl (py_int R (get_or row k (PInt 0))))"

definition float_field_ok :: "runtime \<Rightarrow> string \<Rightarrow> pydict \<Rightarrow> bool" where
  "float_field_ok R k row = (\<not> isl (py_float R (get_or row k (PFloat (Fin 0)))))"

definition numeric_fields_ok :: "runtime \<Rightarrow> raw_gtfs \<Rightarrow> bool" where
  "numeric_fields_ok R g =
     (list_all (int_field_ok R ''direction_id'') (rows_of (raw_trips g))
      \<and> list_all (\<lambda>row. float_field_ok R ''stop_lat'' row \<and> float_field_ok R ''stop_lon'' row)
           (rows_of (raw_stops g))
      \<and> list_all (int_field_ok R ''stop_sequence'') (rows_of (raw_stop_times g)))"

section \<open>Heading\<close>

subsection \<open>\<^verbatim>\<open>calculate_bearing\<close> (lines 246--261)\<close>

text \<open>
  \<^verbatim>\<open>math.radians\<close>, \<^verbatim>\<open>math.degrees\<close>, \<^verbatim>\<open>math.atan2\<close> and the float \<^verbatim>\<open>%\<close> on finite values.
  \<open>atan2 y x\<close> is the angle of the point \<open>(x, y)\<close> in \<open>(-\<pi>, \<pi>]\<close>, and \<open>0\<close> at the origin;
  the result of \<^verbatim>\<open>%\<close> has the sign of the divisor.
\<close>

definition radians :: "real \<Rightarrow> real" where
  "radians x = x * (pi / 180)"

definition degrees :: "real \<Rightarrow> real" where
  "degrees x = x * (180 / pi)"

definition atan2 :: "real \<Rightarrow> real \<Rightarrow> real" where
  "atan2 y x =
     (if 0 < x then arctan (y / x)
      else if x < 0 then (if 0 \<le> y then arctan (y / x) + pi else arctan (y / x) - pi)
      else if 0 < y then pi / 2
      else if y < 0 then - (pi / 2)
      else 0)"

definition fmod :: "real \<Rightarrow> real \<Rightarrow> real" where
  "fmod x m = x - m * of_int \<lfloor>x / m\<rfloor>"

text \<open>
  The same operations on all floats. NaN goes through every operation; \<^verbatim>\<open>math.sin\<close> and
  \<^verbatim>\<open>math.cos\<close> raise \<^verbatim>\<open>ValueError\<close> (math domain error) on an infinity; the other operations
  follow IEEE 754 on infinities.
\<close>

fun f_neg :: "pyfloat \<Rightarrow> pyfloat" where
  "f_neg (Fin a) = Fin (- a)"
| "f_neg PosInf = NegInf"
| "f_neg NegInf = PosInf"
| "f_neg NaN = NaN"

fun f_add :: "pyfloat \<Rightarrow> pyfloat \<Rightarrow> pyfloat" where
  "f_add NaN y = NaN"
| "f_add x NaN = NaN"
| "f_add (Fin a) (Fin b) = Fin (a + b)"
| "f_add (Fin a) y = y"
| "f_add x (Fin b) = x"
| "f_add x y = (if x = y then x else NaN)"

definition f_sub :: "pyfloat \<Rightarrow> pyfloat \<Rightarrow> pyfloat" where
  "f_sub x y = f_add x (f_neg y)"

fun f_mul :: "pyfloat \<Rightarrow> pyfloat \<Rightarrow> pyfloat" where
  "f_mul NaN y = NaN"
| "f_mul x NaN = NaN"
| "f_mul (Fin a) (Fin b) = Fin (a * b)"
| "f_mul (Fin a) y = (if a = 0 then NaN else if 0 < a then y else f_neg y)"
| "f_mul x (Fin b) = (if b = 0 then NaN else if 0 < b then x else f_neg x)"
| "f_mul x y = (if x = y then PosInf else NegInf)"

fun f_radians :: "pyfloat \<Rightarrow> pyfloat" where
  "f_radians (Fin a) = Fin (radians a)"
| "f_radians x = x"

fun f_degrees :: "pyfloat \<Rightarrow> pyfloat" where
  "f_degrees (Fin a) = Fin (degrees a)"
| "f_degrees x = x"

fun f_sin :: "pyfloat \<Rightarrow> py_error + pyfloat" where
  "f_sin (Fin a) = Inr (Fin (sin a))"
| "f_sin NaN = Inr NaN"
| "f_sin x = Inl ValueError"

fun f_cos :: "pyfloat \<Rightarrow> py_error + pyfloat" where
  "f_cos (Fin a) = Inr (Fin (cos a))"
| "f_cos NaN = Inr NaN"
| "f_cos x = Inl ValueError"

fun f_atan2 :: "pyfloat \<Rightarrow> pyfloat \<Rightarrow> pyfloat" where
  "f_atan2 NaN x = NaN"
| "f_atan2 y NaN = NaN"
| "f_atan2 (Fin y) (Fin x) = Fin (atan2 y x)"
| "f_atan2 (Fin y) PosInf = Fin 0"
| "f_atan2 (Fin y) NegInf = Fin (if 0 \<le> y then pi else - pi)"
| "f_atan2 PosInf (Fin x) = Fin (pi / 2)"
| "f_atan2 NegInf (Fin x) = Fin (- (pi / 2))"
| "f_atan2 PosInf PosInf = Fin (pi / 4)"
| "f_atan2 PosInf NegInf = Fin (3 * pi / 4)"
| "f_atan2 NegInf PosInf = Fin (- (pi / 4))"
| "f_atan2 NegInf NegInf = Fin (- (3 * pi / 4))"

text \<open>\<^verbatim>\<open>x % m\<close> for a finite positive \<open>m\<close>: NaN on NaN and on the infinities.\<close>

fun f_mod :: "pyfloat \<Rightarrow> real \<Rightarrow> pyfloat" where
  "f_mod (Fin a) m = Fin (fmod a m)"
| "f_mod x m = NaN"

definition calculate_bearing :: "pyfloat \<Rightarrow> pyfloat \<Rightarrow> pyfloat \<Rightarrow> pyfloat \<Rightarrow> py_error + pyfloat" where
  "calculate_bearing lat1 lon1 lat2 lon2 =
     (let lat1 = f_radians lat1; lon1 = f_radians lon1; lat2 = f_radians lat2; lon2 = f_radians lon2;
          dlon = f_sub lon2 lon1
      in case f_sin dlon of Inl e \<Rightarrow> Inl e | Inr sin_dlon \<Rightarrow>
        (case f_cos lat2 of Inl e \<Rightarrow> Inl e | Inr cos_lat2 \<Rightarrow>
        (case f_cos lat1 of Inl e \<Rightarrow> Inl e | Inr cos_lat1 \<Rightarrow>
        (case f_sin lat2 of Inl e \<Rightarrow> Inl e | Inr sin_lat2 \<Rightarrow>
        (case f_sin lat1 of Inl e \<Rightarrow> Inl e | Inr sin_lat1 \<Rightarrow>
        (case f_cos dlon of Inl e \<Rightarrow> Inl e | Inr cos_dlon \<Rightarrow>
           (let y = f_mul sin_dlon cos_lat2;
                x = f_sub (f_mul cos_lat1 sin_lat2) (f_mul (f_mul sin_lat1 cos_lat2) cos_dlon);
                bearing = f_atan2 y x;
                bearing = f_degrees bearing;
                bearing = f_mod (f_add bearing (Fin 360)) 360
            in Inr bearing)))))))"

subsection \<open>The position block of \<^verbatim>\<open>create_vehicle_position\<close> (lines 288--341)\<close>

text \<open>\<^verbatim>\<open>self.previous_positions\<close>: the only state that survives a cycle. It holds the Python
  floats as they were converted.\<close>

record prev_pos =
  latitude :: pyfloat
  longitude :: pyfloat
  timestamp :: real

type_synonym positions = "string \<Rightarrow> prev_pos option"

text \<open>The position of the message: 32-bit float fields, which hold what \<open>narrow32\<close> makes of
  the Python floats assigned to them.\<close>

record position =
  p_latitude :: pyfloat
  p_longitude :: pyfloat
  p_bearing :: pyfloat

text \<open>\<^verbatim>\<open>except (ValueError, TypeError)\<close>, at lines 323 and 337: any other exception leaves the
  function.\<close>

definition caught :: "py_error \<Rightarrow> bool" where
  "caught e = (e = ValueError \<or> e = TypeError)"

text \<open>
  Lines 299--328: the bearing, or the exception that leaves this part: one that
  \<^verbatim>\<open>calculate_bearing\<close> or the \<^verbatim>\<open>float\<close> of line 314 raises, or one that the handler of line
  323 does not catch.
\<close>

definition bearing_of :: "runtime \<Rightarrow> pydict \<Rightarrow> positions \<Rightarrow> string \<Rightarrow> pyfloat \<Rightarrow> pyfloat \<Rightarrow> py_error + pyfloat" where
  "bearing_of R gps_data previous_positions device_id current_lat current_lon =
     (case previous_positions device_id of
        Some prev_pos \<Rightarrow>
          (if current_lat \<noteq> Fin 0 \<and> current_lon \<noteq> Fin 0
              \<and> latitude prev_pos \<noteq> Fin 0 \<and> longitude prev_pos \<noteq> Fin 0
           then calculate_bearing (latitude prev_pos) (longitude prev_pos) current_lat current_lon
           else py_float R (get_or gps_data ''bearing'' (PFloat (Fin 0))))
      | None \<Rightarrow>
          (case get gps_data ''bearing'' of
             PNone \<Rightarrow> Inr (Fin 0)
           | gps_bearing \<Rightarrow>
               (case py_float R gps_bearing of
                  Inl e \<Rightarrow> (if caught e then Inr (Fin 0) else Inl e)
                | Inr b \<Rightarrow> Inr b)))"

text \<open>
  Lines 337--341: the handler zeroes the three position fields and leaves
  \<^verbatim>\<open>previous_positions\<close> as it was; an exception that it does not catch leaves
  \<^verbatim>\<open>create_vehicle_position\<close>, with \<^verbatim>\<open>previous_positions\<close> as it was too.
\<close>

definition zero_position :: "runtime \<Rightarrow> position" where
  "zero_position R =
     \<lparr>p_latitude = narrow32 R (Fin 0), p_longitude = narrow32 R (Fin 0), p_bearing = narrow32 R (Fin 0)\<rparr>"

definition position_handler :: "runtime \<Rightarrow> positions \<Rightarrow> py_error \<Rightarrow> (py_error + position) \<times> positions" where
  "position_handler R previous_positions e =
     (if caught e then (Inr (zero_position R), previous_positions) else (Inl e, previous_positions))"

text \<open>Lines 288--341.\<close>

definition set_position ::
  "runtime \<Rightarrow> clock \<Rightarrow> pydict \<Rightarrow> positions \<Rightarrow> (py_error + position) \<times> positions" where
  "set_position R clk gps_data previous_positions =
     (case py_float R (get_or gps_data ''latitude'' (PFloat (Fin 0))) of
        Inl e \<Rightarrow> position_handler R previous_positions e
      | Inr current_lat \<Rightarrow>
     (case py_float R (get_or gps_data ''longitude'' (PFloat (Fin 0))) of
        Inl e \<Rightarrow> position_handler R previous_positions e
      | Inr current_lon \<Rightarrow>
          (let device_id = py_str R (get gps_data ''device_id'')
           in case bearing_of R gps_data previous_positions device_id current_lat current_lon of
                Inl e \<Rightarrow> position_handler R previous_positions e
              | Inr bearing \<Rightarrow>
                  (Inr \<lparr>p_latitude = narrow32 R current_lat, p_longitude = narrow32 R current_lon,
                        p_bearing = narrow32 R bearing\<rparr>,
                   previous_positions(device_id \<mapsto>
                     \<lparr>latitude = current_lat, longitude = current_lon, timestamp = now clk\<rparr>)))))"

text \<open>
  The heading estimator as the specification words it: the great-circle initial bearing
  from the previous fix to the current one when a previous fix is stored and neither
  point is the sentinel \<open>(0, 0)\<close>, else the fallback bearing, which is \<open>0.0\<close> when the
  field is absent or does not convert. The formula is one of finite coordinates: on a
  stored fix that is not finite it has no value (NaN).
\<close>

definition great_circle_bearing :: "real \<Rightarrow> real \<Rightarrow> real \<Rightarrow> real \<Rightarrow> real" where
  "great_circle_bearing lat1 lon1 lat2 lon2 =
     fmod (degrees (atan2 (sin (radians lon2 - radians lon1) * cos (radians lat2))
                          (cos (radians lat1) * sin (radians lat2)
                           - sin (radians lat1) * cos (radians lat2) * cos (radians lon2 - radians lon1)))
           + 360) 360"

definition fallback_bearing :: "runtime \<Rightarrow> pydict \<Rightarrow> pyfloat" where
  "fallback_bearing R gps_data =
     (case map_of gps_data ''bearing'' of
        None \<Rightarrow> Fin 0
      | Some b \<Rightarrow> (case py_float R b of Inl e \<Rightarrow> Fin 0 | Inr x \<Rightarrow> x))"

definition sentinel :: "pyfloat \<Rightarrow> pyfloat \<Rightarrow> bool" where
  "sentinel lat lon = (lat = Fin 0 \<and> lon = Fin 0)"

definition spec_bearing :: "runtime \<Rightarrow> pydict \<Rightarrow> prev_pos option \<Rightarrow> real \<Rightarrow> real \<Rightarrow> pyfloat" where
  "spec_bearing R gps_data prior lat lon =
     (case prior of
        Some p \<Rightarrow>
          (case (latitude p, longitude p) of
             (Fin plat, Fin plon) \<Rightarrow>
               (if \<not> sentinel (Fin plat) (Fin plon) \<and> \<not> sentinel (Fin lat) (Fin lon)
                then Fin (great_circle_bearing plat plon lat lon)
                else fallback_bearing R gps_data)
           | _ \<Rightarrow> NaN)
      | None \<Rightarrow> fallback_bearing R gps_data)"

section \<open>Feed messages\<close>

text \<open>
  The protobuf messages of \<^verbatim>\<open>gtfs_realtime_pb2\<close> that the builders fill in, as records of the
  fields they set. An optional field that a builder may leave unset is an \<open>option\<close>. An
  assignment that the protobuf runtime refuses raises its exception out of the builder.
\<close>

record feed_header =
  gtfs_realtime_version :: string
  h_timestamp :: "int option"

record trip_descriptor =
  td_trip_id :: string
  td_route_id :: string
  td_direction_id :: int
  td_start_time :: "string option"
  td_start_date :: string

record vehicle_descriptor =
  vd_id :: string
  vd_label :: string

record vehicle_position =
  vp_trip :: trip_descriptor
  vp_position :: position
  vp_vehicle :: vehicle_descriptor
  vp_timestamp :: int

record stop_time_update =
  stu_stop_sequence :: int
  stu_stop_id :: string
  stu_arrival :: "int option"
  stu_departure :: "int option"
  stu_schedule_relationship :: int

record trip_update =
  tu_trip :: trip_descriptor
  tu_vehicle :: vehicle_descriptor
  tu_timestamp :: int
  tu_stop_time_update :: "stop_time_update list"

record alert =
  a_header_text :: "string list"
  a_description_text :: "string list"
  a_active_period :: "(int \<times> int) list"
  a_informed_entity :: "string list"
  a_cause :: int
  a_effect :: int

datatype entity_body = Vehicle vehicle_position | TripUpdate trip_update | Alert alert

record feed_entity =
  e_id :: string
  e_body :: entity_body

record feed_message =
  header :: feed_header
  entity :: "feed_entity list"

text \<open>Lines 265--269, 354--358 and 419--423: a new message with its header set; the
  timestamp is an unsigned 64-bit field.\<close>

definition new_header :: "clock \<Rightarrow> py_error + feed_header" where
  "new_header clk =
     (case uint64 (trunc (now clk)) of
        Inl e \<Rightarrow> Inl e
      | Inr ts \<Rightarrow> Inr \<lparr>gtfs_realtime_version = ''2.0'', h_timestamp = Some ts\<rparr>)"

subsection \<open>\<^verbatim>\<open>create_vehicle_position\<close> (lines 263--350)\<close>

text \<open>
  \<^verbatim>\<open>int(gps_data.get('direction_id', 0))\<close> at line 281 is outside the \<^verbatim>\<open>try\<close>, and is assigned
  to an unsigned 32-bit field: either error leaves the function.
\<close>

definition create_vehicle_position ::
  "runtime \<Rightarrow> clock \<Rightarrow> pydict \<Rightarrow> positions \<Rightarrow> (py_error + feed_message) \<times> positions" where
  "create_vehicle_position R clk gps_data previous_positions =
     (case new_header clk of
        Inl e \<Rightarrow> (Inl e, previous_positions)
      | Inr hdr \<Rightarrow>
     (case py_int R (get_or gps_data ''direction_id'' (PInt 0)) of
        Inl e \<Rightarrow> (Inl e, previous_positions)
      | Inr d \<Rightarrow>
     (case uint32 d of
        Inl e \<Rightarrow> (Inl e, previous_positions)
      | Inr direction_id \<Rightarrow>
          (case set_position R clk gps_data previous_positions of
             (Inl e, previous_positions') \<Rightarrow> (Inl e, previous_positions')
           | (Inr pos, previous_positions') \<Rightarrow>
               (Inr \<lparr>header = hdr,
                     entity =
                       [\<lparr>e_id = py_str R (get gps_data ''device_id''),
                         e_body = Vehicle
                           \<lparr>vp_trip =
                              \<lparr>td_trip_id = py_str R (get gps_data ''trip_id''),
                               td_route_id = py_str R (get gps_data ''route_id''),
                               td_direction_id = direction_id,
                               td_start_time = None,
                               td_start_date = ymd clk\<rparr>,
                            vp_position = pos,
                            vp_vehicle =
                              \<lparr>vd_id = py_str R (get gps_data ''device_id''),
                               vd_label = py_str R (get_or gps_data ''label'' (get gps_data ''device_id''))\<rparr>,
                            vp_timestamp = trunc (now clk)\<rparr>\<rparr>]\<rparr>,
                previous_positions')))))"

subsection \<open>\<^verbatim>\<open>create_trip_update\<close> (lines 352--415)\<close>

text \<open>
  Lines 394--410: a schedule time that is false (empty) sets nothing; otherwise the time
  is the timestamp of today's date with that time. When \<^verbatim>\<open>strptime\<close> raises \<^verbatim>\<open>ValueError\<close>, or
  the signed 64-bit field \<^verbatim>\<open>time\<close> refuses the timestamp, the handler assigns the clock, outside
  any \<^verbatim>\<open>try\<close>.
\<close>

definition stop_event_time :: "runtime \<Rightarrow> clock \<Rightarrow> pyval \<Rightarrow> py_error + int option" where
  "stop_event_time R clk t =
     (if truthy t
      then (case (case strptime_ts R (ymd clk @ '' '' @ py_str R t) of
                    Some ts \<Rightarrow> int64 ts
                  | None \<Rightarrow> Inl ValueError) of
              Inr ts \<Rightarrow> Inr (Some ts)
            | Inl err \<Rightarrow>
                (case int64 (trunc (now clk)) of
                   Inl e \<Rightarrow> Inl e
                 | Inr ts \<Rightarrow> Inr (Some ts)))
      else Inr None)"

text \<open>Lines 389--413: the loop over the stops. \<^verbatim>\<open>stop_sequence\<close> is an unsigned 32-bit field: a
  sequence number outside its range raises \<^verbatim>\<open>ValueError\<close> out of the loop.\<close>

fun stop_time_updates :: "runtime \<Rightarrow> clock \<Rightarrow> trip_stop list \<Rightarrow> py_error + stop_time_update list" where
  "stop_time_updates R clk [] = Inr []"
| "stop_time_updates R clk (stop # rest) =
     (case uint32 (ts_stop_sequence stop) of
        Inl e \<Rightarrow> Inl e
      | Inr sq \<Rightarrow>
     (case stop_event_time R clk (ts_arrival_time stop) of
        Inl e \<Rightarrow> Inl e
      | Inr arrival \<Rightarrow>
     (case stop_event_time R clk (ts_departure_time stop) of
        Inl e \<Rightarrow> Inl e
      | Inr departure \<Rightarrow>
     (case stop_time_updates R clk rest of
        Inl e \<Rightarrow> Inl e
      | Inr updates \<Rightarrow>
          Inr (\<lparr>stu_stop_sequence = sq,
                stu_stop_id = ts_stop_id stop,
                stu_arrival = arrival,
                stu_departure = departure,
                stu_schedule_relationship = 0\<rparr> # updates)))))"

definition create_trip_update :: "runtime \<Rightarrow> clock \<Rightarrow> pydict \<Rightarrow> processed \<Rightarrow> py_error + feed_message" where
  "create_trip_update R clk gps_data gtfs_data =
     (let trip_id = py_str R (get gps_data ''trip_id'')
      in case new_header clk of
           Inl e \<Rightarrow> Inl e
         | Inr hdr \<Rightarrow>
        (case py_int R (get_or gps_data ''direction_id'' (PInt 0)) of
           Inl e \<Rightarrow> Inl e
         | Inr d \<Rightarrow>
        (case uint32 d of
           Inl e \<Rightarrow> Inl e
         | Inr direction_id \<Rightarrow>
        (case stop_time_updates R clk (get_trip_stops trip_id gtfs_data) of
           Inl e \<Rightarrow> Inl e
         | Inr updates \<Rightarrow>
             Inr \<lparr>header = hdr,
                  entity =
                    [\<lparr>e_id = ''trip_'' @ trip_id,
                      e_body = TripUpdate
                        \<lparr>tu_trip =
                           \<lparr>td_trip_id = trip_id,
                            td_route_id = py_str R (get gps_data ''route_id''),
                            td_direction_id = direction_id,
                            td_start_time = Some (hms clk),
                            td_start_date = ymd clk\<rparr>,
                         tu_vehicle =
                           \<lparr>vd_id = py_str R (get gps_data ''device_id''),
                            vd_label = py_str R (get_or gps_data ''label'' (get gps_data ''device_id''))\<rparr>,
                         tu_timestamp = trunc (now clk),
                         tu_stop_time_update = updates\<rparr>\<rparr>]\<rparr>))))"

subsection \<open>\<^verbatim>\<open>create_service_alert\<close> (lines 417--470)\<close>

text \<open>\<^verbatim>\<open>int(time.time()) + alert_data.get('duration', 3600)\<close>: a number, or \<^verbatim>\<open>TypeError\<close>.\<close>

fun int_plus :: "int \<Rightarrow> pyval \<Rightarrow> py_error + pyval" where
  "int_plus i (PInt d) = Inr (PInt (i + d))"
| "int_plus i (PBool b) = Inr (PInt (i + (if b then 1 else 0)))"
| "int_plus i (PFloat x) = Inr (PFloat (f_add (Fin (of_int i)) x))"
| "int_plus i PNone = Inl TypeError"
| "int_plus i (PStr s) = Inl TypeError"

text \<open>The assignment to the unsigned 64-bit \<^verbatim>\<open>TimeRange.end\<close>: a float raises \<^verbatim>\<open>TypeError\<close>.\<close>

fun pb_uint64 :: "pyval \<Rightarrow> py_error + int" where
  "pb_uint64 (PInt i) = uint64 i"
| "pb_uint64 _ = Inl TypeError"

text \<open>Lines 457--460: every affected entity is assigned to a string field.\<close>

fun pb_strings :: "pyval list \<Rightarrow> py_error + string list" where
  "pb_strings [] = Inr []"
| "pb_strings (v # vs) =
     (case pb_string v of
        Inl e \<Rightarrow> Inl e
      | Inr s \<Rightarrow> (case pb_strings vs of Inl e \<Rightarrow> Inl e | Inr ss \<Rightarrow> Inr (s # ss)))"

text \<open>\<open>fresh\<close> is the value of \<^verbatim>\<open>str(uuid.uuid4())\<close>.\<close>

definition create_service_alert :: "runtime \<Rightarrow> clock \<Rightarrow> string \<Rightarrow> alert_data \<Rightarrow> py_error + feed_message" where
  "create_service_alert R clk fresh alert_data =
     (let alert_id = get_or (al_fields alert_data) ''id'' (PStr fresh)
      in case new_header clk of
           Inl e \<Rightarrow> Inl e
         | Inr hdr \<Rightarrow>
        (case pb_string (get_or (al_fields alert_data) ''header'' (PStr ''Service Alert'')) of
           Inl e \<Rightarrow> Inl e
         | Inr header_text \<Rightarrow>
        (case pb_string (get_or (al_fields alert_data) ''description'' (PStr ''No details available'')) of
           Inl e \<Rightarrow> Inl e
         | Inr description_text \<Rightarrow>
        (case int_plus (trunc (now clk)) (get_or (al_fields alert_data) ''duration'' (PInt 3600)) of
           Inl e \<Rightarrow> Inl e
         | Inr end_value \<Rightarrow>
        (case pb_uint64 end_value of
           Inl e \<Rightarrow> Inl e
         | Inr period_end \<Rightarrow>
        (case (case al_affected alert_data of
                 Some ids \<Rightarrow> pb_strings ids
               | None \<Rightarrow> Inr [''all_routes'']) of
           Inl e \<Rightarrow> Inl e
         | Inr informed \<Rightarrow>
        (case pb_cause R (get_or (al_fields alert_data) ''cause'' (PInt 1)) of
           Inl e \<Rightarrow> Inl e
         | Inr cause \<Rightarrow>
        (case pb_effect R (get_or (al_fields alert_data) ''effect'' (PInt 8)) of
           Inl e \<Rightarrow> Inl e
         | Inr effect \<Rightarrow>
             Inr \<lparr>header = hdr,
                  entity =
                    [\<lparr>e_id = ''alert_'' @ py_str R alert_id,
                      e_body = Alert
                        \<lparr>a_header_text = [header_text],
                         a_description_text = [description_text],
                         a_active_period = [(trunc (now clk), period_end)],
                         a_informed_entity = informed,
                         a_cause = cause,
                         a_effect = effect\<rparr>\<rparr>]\<rparr>))))))))"

section \<open>The synthesis cycle\<close>

text \<open>
  \<^verbatim>\<open>config.json\<close> as \<^verbatim>\<open>process_data\<close> reads it: under \<^verbatim>\<open>vehicles\<close>, a dictionary from vehicle
  numbers to vehicle entries; a vehicle entry has scalar entries (\<^verbatim>\<open>device_id\<close>, \<^verbatim>\<open>label\<close>)
  and, under \<^verbatim>\<open>routes\<close>, a dictionary from route ids to route entries; a route entry has,
  under \<^verbatim>\<open>trips\<close>, a list of trip dictionaries. Every key read with \<^verbatim>\<open>.get\<close> is optional.
\<close>

record route_info =
  ri_trips :: "pydict list option"

record vehicle_info =
  vi_fields :: pydict
  vi_routes :: "(string \<times> route_info) list option"

record config =
  vehicles :: "(string \<times> vehicle_info) list option"

text \<open>\<^verbatim>\<open>get_vehicle_info\<close> (lines 55--60).\<close>

definition get_vehicle_info :: "runtime \<Rightarrow> config \<Rightarrow> pyval \<Rightarrow> vehicle_info" where
  "get_vehicle_info R cfg vehicle_number =
     (case map_of (case vehicles cfg of None \<Rightarrow> [] | Some vs \<Rightarrow> vs) (py_str R vehicle_number) of
        Some info \<Rightarrow> info
      | None \<Rightarrow>
          \<lparr>vi_fields = [(''device_id'', PStr (py_str R vehicle_number)),
                        (''label'', PStr (py_str R vehicle_number))],
           vi_routes = None\<rparr>)"

text \<open>\<^verbatim>\<open>vehicle_info.get('routes', {})\<close> and \<^verbatim>\<open>route_info.get('trips', [])\<close>.\<close>

definition routes_of :: "vehicle_info \<Rightarrow> (string \<times> route_info) list" where
  "routes_of info = (case vi_routes info of None \<Rightarrow> [] | Some rs \<Rightarrow> rs)"

definition trips_of :: "route_info \<Rightarrow> pydict list" where
  "trips_of route = (case ri_trips route of None \<Rightarrow> [] | Some ts \<Rightarrow> ts)"

text \<open>
  What a cycle leaves behind: whether it returned or raised, the messages handed to
  \<^verbatim>\<open>save_protobuf\<close> with their kind, in order, and \<^verbatim>\<open>previous_positions\<close>.
\<close>

datatype outcome = Returned | Raised py_error

record cycle =
  c_outcome :: outcome
  c_saved :: "(feed_message \<times> string) list"
  c_positions :: positions

text \<open>Lines 566--570: the alerts, each built and saved in turn; \<open>fresh n\<close> is the \<open>n\<close>-th
  generated identifier.\<close>

fun save_alerts ::
  "runtime \<Rightarrow> clock \<Rightarrow> (nat \<Rightarrow> string) \<Rightarrow> nat \<Rightarrow> alert_data list \<Rightarrow> (feed_message \<times> string) list
   \<Rightarrow> outcome \<times> (feed_message \<times> string) list" where
  "save_alerts R clk fresh n [] saved = (Returned, saved)"
| "save_alerts R clk fresh n (a # rest) saved =
     (case create_service_alert R clk (fresh n) a of
        Inl e \<Rightarrow> (Raised e, saved)
      | Inr service_alert \<Rightarrow>
          save_alerts R clk fresh (Suc n) rest (saved @ [(service_alert, ''service_alert'')]))"

text \<open>Lines 547--570: the telemetry updated with the resolved context, then the builders.\<close>

definition build_feeds ::
  "runtime \<Rightarrow> clock \<Rightarrow> (nat \<Rightarrow> string) \<Rightarrow> pydict \<Rightarrow> processed \<Rightarrow> positions \<Rightarrow> cycle" where
  "build_feeds R clk fresh gps_data gtfs_data previous_positions =
     (case create_vehicle_position R clk gps_data previous_positions of
        (Inl e, positions') \<Rightarrow>
          \<lparr>c_outcome = Raised e, c_saved = [], c_positions = positions'\<rparr>
      | (Inr vehicle_position, positions') \<Rightarrow>
          (case create_trip_update R clk gps_data gtfs_data of
             Inl e \<Rightarrow>
               \<lparr>c_outcome = Raised e, c_saved = [(vehicle_position, ''vehicle_position'')],
                c_positions = positions'\<rparr>
           | Inr trip_update \<Rightarrow>
               (let saved = [(vehicle_position, ''vehicle_position''), (trip_update, ''trip_update'')]
                in case alerts gtfs_data of
                     None \<Rightarrow> \<lparr>c_outcome = Returned, c_saved = saved, c_positions = positions'\<rparr>
                   | Some als \<Rightarrow>
                       (case save_alerts R clk fresh 0 als saved of
                          (out, saved') \<Rightarrow>
                            \<lparr>c_outcome = out, c_saved = saved', c_positions = positions'\<rparr>))))"

text \<open>The tail of \<^verbatim>\<open>fetch_gtfs_static\<close> (lines 146--152): the tables that were read are
  processed, and any exception makes the result \<^verbatim>\<open>None\<close>.\<close>

definition fetch_gtfs_static :: "runtime \<Rightarrow> raw_gtfs option \<Rightarrow> processed option" where
  "fetch_gtfs_static R fetched =
     (case fetched of
        None \<Rightarrow> None
      | Some tables \<Rightarrow> (case process_gtfs_data R tables of Inl e \<Rightarrow> None | Inr p \<Rightarrow> Some p))"

text \<open>
  \<^verbatim>\<open>process_data\<close> (lines 487--570). \<open>telemetry\<close> is the dictionary that \<^verbatim>\<open>fetch_gps_data\<close>
  returns and \<open>fetched\<close> the tables that \<^verbatim>\<open>fetch_gtfs_static\<close> has read, if any. The handler
  at line 572 logs and raises again, so an exception leaves the cycle with what was saved
  and stored before it. One clock serves the whole cycle. Writing the files is not part
  of the model: \<^verbatim>\<open>save_protobuf\<close> is the list of what it was given.
\<close>

definition aborted :: "positions \<Rightarrow> cycle" where
  "aborted previous_positions = \<lparr>c_outcome = Returned, c_saved = [], c_positions = previous_positions\<rparr>"

definition raised :: "py_error \<Rightarrow> positions \<Rightarrow> cycle" where
  "raised e previous_positions = \<lparr>c_outcome = Raised e, c_saved = [], c_positions = previous_positions\<rparr>"

definition process_data ::
  "runtime \<Rightarrow> config \<Rightarrow> clock \<Rightarrow> (nat \<Rightarrow> string) \<Rightarrow> pydict \<Rightarrow> raw_gtfs option \<Rightarrow> positions \<Rightarrow> cycle" where
  "process_data R cfg clk fresh telemetry fetched previous_positions =
     (let gps_data = telemetry; gtfs = fetch_gtfs_static R fetched
      in if gps_data = [] then aborted previous_positions
         else case gtfs of
           None \<Rightarrow> aborted previous_positions
         | Some gtfs_data \<Rightarrow>
        (let vehicle_number = get gps_data ''device_id'';
             vehicle_info = get_vehicle_info R cfg vehicle_number
         in if vi_fields vehicle_info = [] \<and> vi_routes vehicle_info = None
            then aborted previous_positions
            else
              (let route_id = py_str R (get gps_data ''route_id'')
               in case map_of (routes_of vehicle_info) route_id of
                    None \<Rightarrow> aborted previous_positions
                  | Some route_info \<Rightarrow>
                      (case select_trip (trips_of route_info) (hms clk) of
                         Inl e \<Rightarrow> raised e previous_positions
                       | Inr None \<Rightarrow> aborted previous_positions
                       | Inr (Some current_trip) \<Rightarrow>
                      (case index current_trip ''trip_id'' of
                         Inl e \<Rightarrow> raised e previous_positions
                       | Inr trip_id \<Rightarrow>
                      (case index current_trip ''direction_id'' of
                         Inl e \<Rightarrow> raised e previous_positions
                       | Inr direction_id \<Rightarrow>
                      (case index (vi_fields vehicle_info) ''device_id'' of
                         Inl e \<Rightarrow> raised e previous_positions
                       | Inr device_id \<Rightarrow>
                      (case index (vi_fields vehicle_info) ''label'' of
                         Inl e \<Rightarrow> raised e previous_positions
                       | Inr label \<Rightarrow>
                           build_feeds R clk fresh
                             (AList.updates
                                [''device_id'', ''label'', ''trip_id'', ''route_id'', ''direction_id'']
                                [device_id, label, trip_id, PStr route_id, direction_id]
                                gps_data)
                             gtfs_data previous_positions))))))))"

section \<open>Predicates of the properties\<close>

text \<open>A stored numeric field against the row it came from: the default when the row has no
  such key, else the converted value.\<close>

definition int_field_is :: "runtime \<Rightarrow> pydict \<Rightarrow> string \<Rightarrow> int \<Rightarrow> bool" where
  "int_field_is R row k i = (case map_of row k of None \<Rightarrow> i = 0 | Some v \<Rightarrow> py_int R v = Inr i)"

definition float_field_is :: "runtime \<Rightarrow> pydict \<Rightarrow> string \<Rightarrow> pyfloat \<Rightarrow> bool" where
  "float_field_is R row k x = (case map_of row k of None \<Rightarrow> x = Fin 0 | Some v \<Rightarrow> py_float R v = Inr x)"

text \<open>
  The key under which a row is stored: \<^verbatim>\<open>str(row.get(k, ''))\<close>. A later row with the same key
  overwrites an earlier one, so the row that decides the record of a key is the last row
  of the table with that key.
\<close>

definition row_key :: "runtime \<Rightarrow> string \<Rightarrow> pydict \<Rightarrow> string" where
  "row_key R k row = py_str R (get_or row k (PStr ''''))"

fun last_row :: "runtime \<Rightarrow> string \<Rightarrow> string \<Rightarrow> pydict list \<Rightarrow> pydict option" where
  "last_row R k key [] = None"
| "last_row R k key (row # rest) =
     (case last_row R k key rest of
        Some later \<Rightarrow> Some later
      | None \<Rightarrow> (if row_key R k row = key then Some row else None))"

text \<open>The stop-sequence entries of the rows of one trip, in the order of the rows.\<close>

definition entries_of :: "runtime \<Rightarrow> string \<Rightarrow> pydict list \<Rightarrow> stop_seq list" where
  "entries_of R trip_id rows =
     List.map_filter
       (\<lambda>row. case stop_time_of_row R row of
                 Inr (k, e) \<Rightarrow> (if k = trip_id then Some e else None)
               | Inl err \<Rightarrow> None)
       rows"

text \<open>A float that is neither NaN nor an infinity.\<close>

definition is_fin :: "pyfloat \<Rightarrow> bool" where
  "is_fin x = (case x of Fin a \<Rightarrow> True | _ \<Rightarrow> False)"

text \<open>The \<^verbatim>\<open>bearing\<close> field is an integer beyond the range of a double: \<^verbatim>\<open>float\<close> raises
  \<^verbatim>\<open>OverflowError\<close>, which no handler of \<^verbatim>\<open>create_vehicle_position\<close> catches.\<close>

definition bearing_overflows :: "runtime \<Rightarrow> pydict \<Rightarrow> bool" where
  "bearing_overflows R gps_data =
     (case map_of gps_data ''bearing'' of
        None \<Rightarrow> False
      | Some b \<Rightarrow> py_float R b = Inl OverflowError)"

text \<open>
  The inputs that \<^verbatim>\<open>create_trip_update\<close> needs in order to return: a \<^verbatim>\<open>direction_id\<close> that
  converts to an integer of the unsigned 32-bit range, and stop sequence numbers of that
  range.
\<close>

definition trip_update_buildable :: "runtime \<Rightarrow> pydict \<Rightarrow> processed \<Rightarrow> bool" where
  "trip_update_buildable R gps_data idx =
     ((case py_int R (get_or gps_data ''direction_id'' (PInt 0)) of
         Inl e \<Rightarrow> False
       | Inr d \<Rightarrow> 0 \<le> d \<and> d < 2 ^ 32)
      \<and> list_all (\<lambda>stop. 0 \<le> ts_stop_sequence stop \<and> ts_stop_sequence stop < 2 ^ 32)
           (get_trip_stops (py_str R (get gps_data ''trip_id'')) idx))"

text \<open>A clock whose integer part every timestamp field holds, signed or unsigned.\<close>

definition clock_in_range :: "clock \<Rightarrow> bool" where
  "clock_in_range clk = (0 \<le> trunc (now clk) \<and> trunc (now clk) < 2 ^ 63)"

text \<open>The stop-time updates of a trip-update message.\<close>

definition stop_time_updates_of :: "feed_message \<Rightarrow> stop_time_update list" where
  "stop_time_updates_of m =
     (case entity m of
        [e] \<Rightarrow> (case e_body e of TripUpdate tu \<Rightarrow> tu_stop_time_update tu | _ \<Rightarrow> [])
      | _ \<Rightarrow> [])"

text \<open>An arrival or departure of a stop-time update against the schedule time \<open>t\<close>: unset
  when \<open>t\<close> is false (empty), else the parsed timestamp, or the clock when parsing fails or
  the parsed timestamp is outside the signed 64-bit range.\<close>

definition event_time_ok :: "runtime \<Rightarrow> clock \<Rightarrow> pyval \<Rightarrow> int option \<Rightarrow> bool" where
  "event_time_ok R clk t r =
     ((\<not> truthy t \<longrightarrow> r = None)
      \<and> (truthy t \<longrightarrow>
           r = Some (case strptime_ts R (ymd clk @ '' '' @ py_str R t) of
                       Some ts \<Rightarrow> (if - (2 ^ 63) \<le> ts \<and> ts < 2 ^ 63 then ts else trunc (now clk))
                     | None \<Rightarrow> trunc (now clk))))"

text \<open>No saved message is an alert.\<close>

definition has_alert :: "feed_message \<Rightarrow> bool" where
  "has_alert m = list_ex (\<lambda>e. case e_body e of Alert al \<Rightarrow> True | _ \<Rightarrow> False) (entity m)"

definition no_alert_saved :: "(feed_message \<times> string) list \<Rightarrow> bool" where
  "no_alert_saved saved = list_all (\<lambda>(m, kind). kind \<noteq> ''service_alert'' \<and> \<not> has_alert m) saved"

section \<open>Worked examples\<close>

text \<open>
  A runtime for the examples: tables of the conversions that the examples make, which agree
  with Python on their entries and on the strings of the examples that are not in them
  (\<^verbatim>\<open>int('abc')\<close> and \<^verbatim>\<open>strptime\<close> on hour 25 or on an empty time raise \<^verbatim>\<open>ValueError\<close>). No
  example reaches \<open>float_repr\<close>. Every float that an example assigns to a 32-bit field (0,
  40, 40.5, -75, 90, 180) is one that the field holds exactly, so \<open>narrow32\<close> is the
  identity there. The enum tables hold the defaults \<^verbatim>\<open>UNKNOWN_CAUSE\<close> (1) and
  \<^verbatim>\<open>UNKNOWN_EFFECT\<close> (8).
\<close>

definition sample_runtime :: runtime where
  "sample_runtime =
     \<lparr>int_of_str = map_of [(''0'', 0), (''1'', 1), (''2'', 2)],
      float_of_str = map_of [(''40.0'', Fin 40), (''-75.0'', Fin (-75))],
      float_repr = (\<lambda>x. ''0.0''),
      strptime_ts = map_of [(''20240115 08:00:00'', 1705305600), (''20240115 08:05:00'', 1705305900)],
      narrow32 = (\<lambda>x. x),
      pb_cause = (\<lambda>v. if v = PInt 1 then Inr 1 else Inl ValueError),
      pb_effect = (\<lambda>v. if v = PInt 8 then Inr 8 else Inl ValueError)\<rparr>"

text \<open>15 January 2024, 08:30:00 UTC.\<close>

definition sample_clock :: clock where
  "sample_clock = \<lparr>now = 1705307400, hms = ''08:30:00'', ymd = ''20240115''\<rparr>"

definition fix_of :: "string \<Rightarrow> real \<Rightarrow> real \<Rightarrow> pydict" where
  "fix_of dev lat lon = [(''device_id'', PStr dev), (''latitude'', PFloat (Fin lat)), (''longitude'', PFloat (Fin lon))]"

definition fix_with_bearing :: "string \<Rightarrow> real \<Rightarrow> real \<Rightarrow> pyval \<Rightarrow> pydict" where
  "fix_with_bearing dev lat lon b = fix_of dev lat lon @ [(''bearing'', b)]"

definition stored_fix :: "string \<Rightarrow> real \<Rightarrow> real \<Rightarrow> real \<Rightarrow> positions" where
  "stored_fix dev lat lon t = Map.empty(dev \<mapsto> \<lparr>latitude = Fin lat, longitude = Fin lon, timestamp = t\<rparr>)"

definition stop_row :: "string \<Rightarrow> string \<Rightarrow> real \<Rightarrow> real \<Rightarrow> pydict" where
  "stop_row sid name lat lon =
     [(''stop_id'', PStr sid), (''stop_name'', PStr name), (''stop_lat'', PFloat (Fin lat)), (''stop_lon'', PFloat (Fin lon))]"

definition stop_time_row :: "string \<Rightarrow> string \<Rightarrow> pyval \<Rightarrow> string \<Rightarrow> string \<Rightarrow> pydict" where
  "stop_time_row tid sid sq arr dep =
     [(''trip_id'', PStr tid), (''stop_id'', PStr sid), (''stop_sequence'', sq),
      (''arrival_time'', PStr arr), (''departure_time'', PStr dep)]"

definition stop_entry :: "string \<Rightarrow> string \<Rightarrow> real \<Rightarrow> real \<Rightarrow> string \<times> stop_rec" where
  "stop_entry sid name lat lon =
     (sid, \<lparr>s_stop_id = sid, s_stop_name = PStr name, s_stop_lat = Fin lat, s_stop_lon = Fin lon,
            s_stop_code = PStr '''', s_stop_desc = PStr ''''\<rparr>)"

definition seq_entry :: "int \<Rightarrow> string \<Rightarrow> string \<Rightarrow> string \<Rightarrow> stop_seq" where
  "seq_entry sq sid arr dep =
     \<lparr>stop_sequence = sq, q_stop_id = sid, arrival_time = PStr arr, departure_time = PStr dep,
      stop_headsign = PStr '''', pickup_type = PStr '''', drop_off_type = PStr ''''\<rparr>"

definition two_stops :: "pydict list" where
  "two_stops = [stop_row ''A'' ''Alpha'' 40 (-75), stop_row ''B'' ''Beta'' 40.1 (-75)]"

text \<open>Two stop times of one trip, inserted with sequence 2 and then sequence 1, and the
  index built from them.\<close>

definition gtfs_reversed :: raw_gtfs where
  "gtfs_reversed =
     \<lparr>raw_routes = None, raw_trips = None, raw_stops = Some two_stops,
      raw_stop_times = Some [stop_time_row ''T1'' ''B'' (PInt 2) ''08:05:00'' ''08:06:00'',
                             stop_time_row ''T1'' ''A'' (PInt 1) ''08:00:00'' ''08:01:00''],
      raw_calendar = None\<rparr>"

definition reversed_index :: processed where
  "reversed_index =
     \<lparr>routes = [], trips = [],
      stops = [stop_entry ''A'' ''Alpha'' 40 (-75), stop_entry ''B'' ''Beta'' 40.1 (-75)],
      stop_sequences = [(''T1'', [seq_entry 1 ''A'' ''08:00:00'' ''08:01:00'',
                                  seq_entry 2 ''B'' ''08:05:00'' ''08:06:00''])],
      alerts = None\<rparr>"

text \<open>Two stop times of one trip with the same sequence number.\<close>

definition gtfs_duplicate :: raw_gtfs where
  "gtfs_duplicate =
     \<lparr>raw_routes = None, raw_trips = None, raw_stops = Some two_stops,
      raw_stop_times = Some [stop_time_row ''T1'' ''A'' (PInt 1) ''08:00:00'' ''08:01:00'',
                             stop_time_row ''T1'' ''B'' (PInt 1) ''08:05:00'' ''08:06:00''],
      raw_calendar = None\<rparr>"

text \<open>No stops table, and a trip row without \<^verbatim>\<open>direction_id\<close>; the index built from it.\<close>

definition gtfs_no_stops :: raw_gtfs where
  "gtfs_no_stops =
     \<lparr>raw_routes = None,
      raw_trips = Some [[(''trip_id'', PStr ''T1''), (''route_id'', PStr ''R1'')]],
      raw_stops = None, raw_stop_times = None, raw_calendar = None\<rparr>"

definition index_no_stops :: processed where
  "index_no_stops =
     \<lparr>routes = [],
      trips = [(''T1'', \<lparr>t_trip_id = ''T1'', t_route_id = ''R1'', t_service_id = PStr '''',
                         t_direction_id = 0, t_shape_id = PStr '''',
                         t_wheelchair_accessible = PStr ''''\<rparr>)],
      stops = [], stop_sequences = [], alerts = None\<rparr>"

text \<open>A trip row whose \<^verbatim>\<open>direction_id\<close> is the string \<^verbatim>\<open>abc\<close>.\<close>

definition gtfs_bad_direction :: raw_gtfs where
  "gtfs_bad_direction =
     \<lparr>raw_routes = None,
      raw_trips = Some [[(''trip_id'', PStr ''T1''), (''route_id'', PStr ''R1''),
                         (''direction_id'', PStr ''abc'')]],
      raw_stops = None, raw_stop_times = None, raw_calendar = None\<rparr>"

text \<open>A trip row whose \<^verbatim>\<open>direction_id\<close> is NaN, as pandas reads an empty cell.\<close>

definition gtfs_nan_direction :: raw_gtfs where
  "gtfs_nan_direction =
     \<lparr>raw_routes = None,
      raw_trips = Some [[(''trip_id'', PStr ''T1''), (''route_id'', PStr ''R1''),
                         (''direction_id'', PFloat NaN)]],
      raw_stops = None, raw_stop_times = None, raw_calendar = None\<rparr>"

text \<open>Two trip rows: T1 without \<^verbatim>\<open>direction_id\<close>, then T2 with direction 1.\<close>

definition gtfs_two_trips :: raw_gtfs where
  "gtfs_two_trips =
     \<lparr>raw_routes = None,
      raw_trips = Some [[(''trip_id'', PStr ''T1''), (''route_id'', PStr ''R1'')],
                        [(''trip_id'', PStr ''T2''), (''route_id'', PStr ''R1''),
                         (''direction_id'', PInt 1)]],
      raw_stops = None, raw_stop_times = None, raw_calendar = None\<rparr>"

text \<open>A stop time with the sequence number -1, which the index accepts.\<close>

definition gtfs_negative :: raw_gtfs where
  "gtfs_negative =
     \<lparr>raw_routes = None, raw_trips = None, raw_stops = Some two_stops,
      raw_stop_times = Some [stop_time_row ''T1'' ''A'' (PInt (-1)) ''08:00:00'' ''08:05:00''],
      raw_calendar = None\<rparr>"

definition negative_index :: processed where
  "negative_index =
     \<lparr>routes = [], trips = [],
      stops = [stop_entry ''A'' ''Alpha'' 40 (-75), stop_entry ''B'' ''Beta'' 40.1 (-75)],
      stop_sequences = [(''T1'', [seq_entry (-1) ''A'' ''08:00:00'' ''08:05:00''])],
      alerts = None\<rparr>"

text \<open>
  A trip with three stops: a schedule time that parses, one past midnight (hour 25, which
  \<^verbatim>\<open>strptime\<close> rejects), and a stop-time row without \<^verbatim>\<open>arrival_time\<close> and \<^verbatim>\<open>departure_time\<close>.
\<close>

definition gtfs_times :: raw_gtfs where
  "gtfs_times =
     \<lparr>raw_routes = None, raw_trips = None,
      raw_stops = Some [stop_row ''A'' ''Alpha'' 40 (-75), stop_row ''B'' ''Beta'' 40.1 (-75),
                        stop_row ''C'' ''Gamma'' 40.2 (-75)],
      raw_stop_times = Some [stop_time_row ''T1'' ''A'' (PInt 1) ''08:00:00'' ''08:05:00'',
                             stop_time_row ''T1'' ''B'' (PInt 2) ''25:10:00'' ''25:11:00'',
                             [(''trip_id'', PStr ''T1''), (''stop_id'', PStr ''C''),
                              (''stop_sequence'', PInt 3)]],
      raw_calendar = None\<rparr>"

definition times_index :: processed where
  "times_index =
     \<lparr>routes = [], trips = [],
      stops = [stop_entry ''A'' ''Alpha'' 40 (-75), stop_entry ''B'' ''Beta'' 40.1 (-75),
               stop_entry ''C'' ''Gamma'' 40.2 (-75)],
      stop_sequences = [(''T1'', [seq_entry 1 ''A'' ''08:00:00'' ''08:05:00'',
                                  seq_entry 2 ''B'' ''25:10:00'' ''25:11:00'',
                                  seq_entry 3 ''C'' '''' ''''])],
      alerts = None\<rparr>"

text \<open>The telemetry of a cycle once \<^verbatim>\<open>process_data\<close> has merged the resolved context.\<close>

definition resolved_fix :: pydict where
  "resolved_fix =
     fix_of ''bus1'' 40.5 (-75)
     @ [(''label'', PStr ''Bus 1''), (''trip_id'', PStr ''T1''), (''route_id'', PStr ''R1''),
        (''direction_id'', PInt 0)]"

definition sample_alert :: alert_data where
  "sample_alert = \<lparr>al_fields = [(''id'', PStr ''a1''), (''header'', PStr ''Detour'')], al_affected = None\<rparr>"

text \<open>A configuration with one vehicle: route R1 has the three trips, route R2 has none.\<close>

definition sample_config :: config where
  "sample_config =
     \<lparr>vehicles = Some
        [(''bus1'',
          \<lparr>vi_fields = [(''device_id'', PStr ''bus1''), (''label'', PStr ''Bus 1'')],
           vi_routes = Some [(''R1'', \<lparr>ri_trips = Some three_trips\<rparr>),
                             (''R2'', \<lparr>ri_trips = Some []\<rparr>)]\<rparr>)]\<rparr>"

definition telemetry_on :: "string \<Rightarrow> pydict" where
  "telemetry_on route = fix_of ''bus1'' 40.5 (-75) @ [(''route_id'', PStr route)]"

definition no_uuid :: "nat \<Rightarrow> string" where
  "no_uuid n = ''00000000-0000-4000-8000-000000000000''"

section \<open>Verified properties\<close>


subsection \<open>Trip selection\<close>

lemma py_le_str_wf:
  assumes "wf_trip trip"
  shows "py_le_str (get_or trip ''start_time'' (PStr '''')) t = Inr (start_time_le t trip)"
proof (cases "map_of trip ''start_time''")
  case None
  then show ?thesis by (simp add: get_or_def start_time_le_def)
next
  case (Some v)
  with assms obtain s where "v = PStr s" by (cases v) (auto simp: wf_trip_def)
  with Some show ?thesis by (simp add: get_or_def start_time_le_def)
qed

lemma scan_trips_wf:
  "\<forall>trip \<in> set ts. wf_trip trip \<Longrightarrow>
   scan_trips cur ts t =
     Inr (if takeWhile (start_time_le t) ts = [] then cur
          else Some (last (takeWhile (start_time_le t) ts)))"
proof (induction ts arbitrary: cur)
  case Nil
  then show ?case by simp
next
  case (Cons trip ts)
  then have wf: "wf_trip trip" and rest: "\<forall>x \<in> set ts. wf_trip x" by simp_all
  show ?case
    using Cons.IH [OF rest] by (simp add: py_le_str_wf [OF wf])
qed

lemma takeWhile_last_wf:
  "\<forall>x \<in> set ts. P x \<Longrightarrow> takeWhile Q ts \<noteq> [] \<Longrightarrow> P (last (takeWhile Q ts))"
  by (meson last_in_set set_takeWhileD)

text \<open>
  C1. For every list of well-formed trip entries and every current time, the selector of
  \<^verbatim>\<open>process_data\<close> returns without error the last trip of the scanned prefix (the trips
  before the first one whose start time is after the current time), the first trip when
  that prefix is empty, and no trip when the list is empty.
\<close>

theorem select_trip_spec:
  assumes "\<forall>trip \<in> set ts. wf_trip trip"
  shows "select_trip ts t = Inr (spec_select ts t)"
proof -
  have "takeWhile (start_time_le t) ts \<noteq> [] \<Longrightarrow> last (takeWhile (start_time_le t) ts) \<noteq> []"
    using takeWhile_last_wf [OF assms] by (auto simp: wf_trip_def)
  then show ?thesis
    by (simp add: select_trip_def spec_select_def scan_trips_wf [OF assms] Let_def
        split: list.splits)
qed

text \<open>The three cases the specification lists: start times 06:00, 09:00 and 14:00 at 10:00
  and at 05:00, and the empty trip list.\<close>

theorem select_trip_spec_witness:
  "list_all wf_trip three_trips
   \<and> select_trip three_trips ''10:00:00'' = Inr (Some (mk_trip ''T2'' 1 ''09:00:00''))
   \<and> select_trip three_trips ''05:00:00'' = Inr (Some (mk_trip ''T1'' 0 ''06:00:00''))
   \<and> select_trip [] ''10:00:00'' = Inr None"
proof -
  have wf: "\<forall>trip \<in> set three_trips. wf_trip trip"
    by (simp add: three_trips_def mk_trip_def wf_trip_def)
  have e: "\<forall>trip \<in> set ([] :: pydict list). wf_trip trip" by simp
  have "select_trip three_trips ''10:00:00'' = Inr (Some (mk_trip ''T2'' 1 ''09:00:00''))"
    using select_trip_spec [OF wf, of "''10:00:00''"]
    by (simp add: spec_select_def three_trips_def mk_trip_def start_time_le_def get_or_def)
  moreover have "select_trip three_trips ''05:00:00'' = Inr (Some (mk_trip ''T1'' 0 ''06:00:00''))"
    using select_trip_spec [OF wf, of "''05:00:00''"]
    by (simp add: spec_select_def three_trips_def mk_trip_def start_time_le_def get_or_def)
  moreover have "select_trip [] ''10:00:00'' = Inr None"
    using select_trip_spec [OF e, of "''10:00:00''"]
    by (simp add: spec_select_def)
  ultimately show ?thesis using wf by (simp add: list_all_iff)
qed


subsection \<open>The schedule index\<close>

lemmas example_defs = process_gtfs_data_def gtfs_reversed_def gtfs_duplicate_def gtfs_times_def
  gtfs_no_stops_def gtfs_bad_direction_def two_stops_def stop_row_def stop_time_row_def
  route_of_row_def trip_of_row_def stop_of_row_def stop_time_of_row_def append_entry_def
  sort_sequences_def get_or_def get_def Let_def get_trip_stops_def joined_def stop_entry_def
  seq_entry_def reversed_index_def times_index_def index_no_stops_def sample_runtime_def
  gtfs_nan_direction_def gtfs_two_trips_def gtfs_negative_def negative_index_def

lemma negative_index_built: "process_gtfs_data sample_runtime gtfs_negative = Inr negative_index"
  by (simp add: example_defs)

lemma reversed_index_built: "process_gtfs_data sample_runtime gtfs_reversed = Inr reversed_index"
  by (simp add: example_defs)

lemma times_index_built: "process_gtfs_data sample_runtime gtfs_times = Inr times_index"
  by (simp add: example_defs)

lemma index_no_stops_built: "process_gtfs_data sample_runtime gtfs_no_stops = Inr index_no_stops"
  by (simp add: example_defs)

lemma trip_of_row_ok: "int_field_ok R ''direction_id'' row \<longleftrightarrow> \<not> isl (trip_of_row R row)"
  by (simp add: int_field_ok_def trip_of_row_def Let_def split: sum.splits)

lemma stop_of_row_ok:
  "float_field_ok R ''stop_lat'' row \<and> float_field_ok R ''stop_lon'' row \<longleftrightarrow> \<not> isl (stop_of_row R row)"
  by (simp add: float_field_ok_def stop_of_row_def Let_def split: sum.splits)

lemma stop_time_of_row_ok: "int_field_ok R ''stop_sequence'' row \<longleftrightarrow> \<not> isl (stop_time_of_row R row)"
  by (simp add: int_field_ok_def stop_time_of_row_def Let_def split: sum.splits)

lemma process_trips_ok:
  "list_all (int_field_ok R ''direction_id'') rows \<longleftrightarrow> \<not> isl (process_trips R rows acc)"
  by (induction rows arbitrary: acc) (auto simp: trip_of_row_ok split: sum.splits)

lemma process_stops_ok:
  "list_all (\<lambda>row. float_field_ok R ''stop_lat'' row \<and> float_field_ok R ''stop_lon'' row) rows
   \<longleftrightarrow> \<not> isl (process_stops R rows acc)"
  by (induction rows arbitrary: acc) (auto simp: stop_of_row_ok split: sum.splits)

lemma process_stop_times_ok:
  "list_all (int_field_ok R ''stop_sequence'') rows \<longleftrightarrow> \<not> isl (process_stop_times R rows acc)"
  by (induction rows arbitrary: acc) (auto simp: stop_time_of_row_ok split: sum.splits)

lemma process_gtfs_data_ok:
  "numeric_fields_ok R g \<longleftrightarrow> (\<exists>p. process_gtfs_data R g = Inr p)"
proof -
  have t: "list_all (int_field_ok R ''direction_id'') (rows_of (raw_trips g))
           \<longleftrightarrow> \<not> isl (case raw_trips g of None \<Rightarrow> Inr [] | Some rows \<Rightarrow> process_trips R rows [])"
    using process_trips_ok [of R _ "[]"] by (simp add: rows_of_def split: option.splits)
  have s: "list_all (\<lambda>row. float_field_ok R ''stop_lat'' row \<and> float_field_ok R ''stop_lon'' row)
             (rows_of (raw_stops g))
           \<longleftrightarrow> \<not> isl (case raw_stops g of None \<Rightarrow> Inr [] | Some rows \<Rightarrow> process_stops R rows [])"
    using process_stops_ok [of R _ "[]"] by (simp add: rows_of_def split: option.splits)
  have q: "list_all (int_field_ok R ''stop_sequence'') (rows_of (raw_stop_times g))
           \<longleftrightarrow> \<not> isl (case raw_stop_times g of None \<Rightarrow> Inr [] | Some rows \<Rightarrow> process_stop_times R rows [])"
    using process_stop_times_ok [of R _ "[]"] by (simp add: rows_of_def split: option.splits)
  show ?thesis
    unfolding numeric_fields_ok_def t s q process_gtfs_data_def Let_def
    by (auto split: sum.splits)
qed

lemma join_stops_map_filter:
  "join_stops st es = List.map_filter (\<lambda>e. map_option (joined e) (map_of st (q_stop_id e))) es"
  by (induction es) (auto simp: map_filter_simps split: option.splits)

lemma join_stops_sequences:
  "map ts_stop_sequence (join_stops st es) =
   map stop_sequence (filter (\<lambda>e. map_of st (q_stop_id e) \<noteq> None) es)"
  by (induction es) (auto simp: joined_def split: option.splits)

lemma sorted_map_filter: "sorted (map f xs) \<Longrightarrow> sorted (map f (filter P xs))"
  by (induction xs) auto

lemma map_of_sort_sequences:
  "map_of (sort_sequences sq) trip_id = map_option (sort_key stop_sequence) (map_of sq trip_id)"
  by (simp add: sort_sequences_def map_of_map)

lemma process_gtfs_data_sequences:
  assumes "process_gtfs_data R g = Inr p"
  shows "\<exists>sq. stop_sequences p = sort_sequences sq"
  using assms by (auto simp: process_gtfs_data_def Let_def split: sum.splits)

lemma stored_sequence_sorted:
  assumes "process_gtfs_data R g = Inr p" and "map_of (stop_sequences p) trip_id = Some es"
  shows "sorted (map stop_sequence es)"
proof -
  from assms(1) obtain sq where "stop_sequences p = sort_sequences sq"
    using process_gtfs_data_sequences by blast
  with assms(2) obtain es0 where "es = sort_key stop_sequence es0"
    by (auto simp: map_of_sort_sequences)
  then show ?thesis by simp
qed

lemma map_of_append_entry:
  "map_of (append_entry k v acc) k' =
     (if k' = k then Some ((case map_of acc k of None \<Rightarrow> [] | Some es \<Rightarrow> es) @ [v]) else map_of acc k')"
  by (auto simp: append_entry_def Let_def map_of_map_entry update_conv' split: option.splits)

lemma entries_of_Cons:
  "entries_of R k (row # rows) =
     (case stop_time_of_row R row of
        Inr (k', e) \<Rightarrow> (if k' = k then e # entries_of R k rows else entries_of R k rows)
      | Inl err \<Rightarrow> entries_of R k rows)"
  by (simp add: entries_of_def map_filter_simps split: sum.splits prod.splits)

lemma entries_of_Nil: "entries_of R k [] = []"
  by (simp add: entries_of_def map_filter_simps)

text \<open>The loop over the stop-time rows appends, to what a trip already has, the entries of
  its rows in their order.\<close>

lemma process_stop_times_entries:
  "process_stop_times R rows acc = Inr m \<Longrightarrow>
   map_of m k =
     (case map_of acc k of
        None \<Rightarrow> (if entries_of R k rows = [] then None else Some (entries_of R k rows))
      | Some old \<Rightarrow> Some (old @ entries_of R k rows))"
proof (induction rows arbitrary: acc)
  case Nil
  then show ?case by (simp add: entries_of_Nil split: option.splits)
next
  case (Cons row rows)
  from Cons.prems obtain k' v' where r: "stop_time_of_row R row = Inr (k', v')"
    and rest: "process_stop_times R rows (append_entry k' v' acc) = Inr m"
    by (auto split: sum.splits)
  show ?case
    using Cons.IH [OF rest] r
    by (auto simp: map_of_append_entry entries_of_Cons split: option.splits)
qed

lemma stored_sequence_entries:
  assumes "process_gtfs_data R g = Inr p"
  shows "map_of (stop_sequences p) k =
           (if entries_of R k (rows_of (raw_stop_times g)) = [] then None
            else Some (sort_key stop_sequence (entries_of R k (rows_of (raw_stop_times g)))))"
proof (cases "raw_stop_times g")
  case None
  with assms show ?thesis
    by (auto simp: process_gtfs_data_def Let_def sort_sequences_def rows_of_def entries_of_Nil
        split: sum.splits)
next
  case (Some rows)
  with assms obtain sq where sq: "process_stop_times R rows [] = Inr sq"
    and p: "stop_sequences p = sort_sequences sq"
    by (auto simp: process_gtfs_data_def Let_def split: sum.splits)
  from process_stop_times_entries [OF sq, of k] show ?thesis
    using Some by (simp add: p map_of_sort_sequences rows_of_def)
qed

lemma stop_time_of_row_key:
  "stop_time_of_row R row = Inr (k, e) \<Longrightarrow> k = row_key R ''trip_id'' row"
  by (auto simp: stop_time_of_row_def row_key_def Let_def split: sum.splits)

text \<open>When every row converts, a trip has as many entries as the table has rows with its
  trip id.\<close>

lemma length_entries_of:
  "list_all (\<lambda>row. \<not> isl (stop_time_of_row R row)) rows \<Longrightarrow>
   length (entries_of R k rows) = length (filter (\<lambda>row. row_key R ''trip_id'' row = k) rows)"
proof (induction rows)
  case Nil
  then show ?case by (simp add: entries_of_Nil)
next
  case (Cons row rows)
  then obtain k' e where r: "stop_time_of_row R row = Inr (k', e)"
    by (cases "stop_time_of_row R row") auto
  then have "k' = row_key R ''trip_id'' row" by (rule stop_time_of_row_key)
  with Cons r show ?case by (simp add: entries_of_Cons)
qed

lemma distinct_map_sort_key: "distinct (map f (sort_key f xs)) = distinct (map f xs)"
  by (simp add: distinct_map)

text \<open>
  C4, as the code has it. After index construction the stop sequence stored for a trip is
  the list of the entries of all the \<^verbatim>\<open>stop_times\<close> rows of that trip, one for every row,
  sorted ascending by \<^verbatim>\<open>stop_sequence\<close> whatever the order of the rows (rows with equal sequence
  numbers stay in the order of the rows), and the list that \<^verbatim>\<open>get_trip_stops\<close> returns is sorted
  too. The order is strict exactly when the rows of the trip have pairwise different
  sequence numbers.
\<close>

theorem sequences_sorted:
  assumes "process_gtfs_data R g = Inr p"
  shows "map_of (stop_sequences p) trip_id =
           (if entries_of R trip_id (rows_of (raw_stop_times g)) = [] then None
            else Some (sort_key stop_sequence (entries_of R trip_id (rows_of (raw_stop_times g)))))
         \<and> length (entries_of R trip_id (rows_of (raw_stop_times g)))
             = length (filter (\<lambda>row. row_key R ''trip_id'' row = trip_id) (rows_of (raw_stop_times g)))
         \<and> (\<forall>es. map_of (stop_sequences p) trip_id = Some es \<longrightarrow>
               sorted (map stop_sequence es)
               \<and> (sorted_wrt (<) (map stop_sequence es) \<longleftrightarrow>
                    distinct (map stop_sequence (entries_of R trip_id (rows_of (raw_stop_times g))))))
         \<and> sorted (map ts_stop_sequence (get_trip_stops trip_id p))"
proof (intro conjI allI impI)
  show stored: "map_of (stop_sequences p) trip_id =
           (if entries_of R trip_id (rows_of (raw_stop_times g)) = [] then None
            else Some (sort_key stop_sequence (entries_of R trip_id (rows_of (raw_stop_times g)))))"
    by (rule stored_sequence_entries [OF assms])
  have "\<not> isl (case raw_stop_times g of None \<Rightarrow> Inr [] | Some rows \<Rightarrow> process_stop_times R rows [])"
    using assms by (auto simp: process_gtfs_data_def Let_def split: sum.splits)
  then have "list_all (int_field_ok R ''stop_sequence'') (rows_of (raw_stop_times g))"
    using process_stop_times_ok [of R _ "[]"] by (simp add: rows_of_def split: option.splits)
  then have "list_all (\<lambda>row. \<not> isl (stop_time_of_row R row)) (rows_of (raw_stop_times g))"
    by (simp add: stop_time_of_row_ok list_all_iff)
  then show "length (entries_of R trip_id (rows_of (raw_stop_times g)))
             = length (filter (\<lambda>row. row_key R ''trip_id'' row = trip_id) (rows_of (raw_stop_times g)))"
    by (rule length_entries_of)
  { fix es assume es: "map_of (stop_sequences p) trip_id = Some es"
    then show s: "sorted (map stop_sequence es)" using stored_sequence_sorted [OF assms] by blast
    from es stored have "es = sort_key stop_sequence (entries_of R trip_id (rows_of (raw_stop_times g)))"
      by (simp split: if_splits)
    then have "distinct (map stop_sequence es)
               = distinct (map stop_sequence (entries_of R trip_id (rows_of (raw_stop_times g))))"
      by (simp only: distinct_map_sort_key)
    with s show "sorted_wrt (<) (map stop_sequence es) \<longleftrightarrow>
                 distinct (map stop_sequence (entries_of R trip_id (rows_of (raw_stop_times g))))"
      by (simp add: strict_sorted_iff) }
  show "sorted (map ts_stop_sequence (get_trip_stops trip_id p))"
  proof (cases "map_of (stop_sequences p) trip_id")
    case None
    then show ?thesis by (simp add: get_trip_stops_def)
  next
    case (Some es)
    then have "sorted (map stop_sequence es)" using stored_sequence_sorted [OF assms] by blast
    then show ?thesis using Some
      by (simp add: get_trip_stops_def join_stops_sequences sorted_map_filter)
  qed
qed

text \<open>The example of the specification: rows inserted with sequence 2 and then 1 come back
  from \<^verbatim>\<open>get_trip_stops\<close> as 1 and then 2, and both rows are stored.\<close>

theorem sequences_sorted_witness:
  "process_gtfs_data sample_runtime gtfs_reversed = Inr reversed_index
   \<and> map ts_stop_sequence (get_trip_stops ''T1'' reversed_index) = [1, 2]
   \<and> map ts_stop_id (get_trip_stops ''T1'' reversed_index) = [''A'', ''B'']
   \<and> sorted (map ts_stop_sequence (get_trip_stops ''T1'' reversed_index))
   \<and> map_of (stop_sequences reversed_index) ''T1''
       = Some (sort_key stop_sequence (entries_of sample_runtime ''T1'' (rows_of (raw_stop_times gtfs_reversed))))
   \<and> length (entries_of sample_runtime ''T1'' (rows_of (raw_stop_times gtfs_reversed))) = 2"
proof -
  note t = sequences_sorted [OF reversed_index_built, of "''T1''"]
  have n: "length (entries_of sample_runtime ''T1'' (rows_of (raw_stop_times gtfs_reversed))) = 2"
    using t by (simp add: gtfs_reversed_def rows_of_def row_key_def stop_time_row_def get_or_def)
  then have "entries_of sample_runtime ''T1'' (rows_of (raw_stop_times gtfs_reversed)) \<noteq> []"
    by auto
  with t have "map_of (stop_sequences reversed_index) ''T1''
       = Some (sort_key stop_sequence (entries_of sample_runtime ''T1'' (rows_of (raw_stop_times gtfs_reversed))))"
    by simp
  moreover have "sorted (map ts_stop_sequence (get_trip_stops ''T1'' reversed_index))"
    using t by simp
  moreover have "map ts_stop_sequence (get_trip_stops ''T1'' reversed_index) = [1, 2]"
    and "map ts_stop_id (get_trip_stops ''T1'' reversed_index) = [''A'', ''B'']"
    by (simp_all add: example_defs)
  ultimately show ?thesis using reversed_index_built n by simp
qed

text \<open>C4 as stated fails: two rows of trip T1 with sequence number 1 are both stored, and
  the stored sequence 1, 1 is not strictly ascending.\<close>

theorem sequences_not_strict_counterexample:
  "(case process_gtfs_data sample_runtime gtfs_duplicate of
      Inl e \<Rightarrow> False
    | Inr p \<Rightarrow> map_option (map stop_sequence) (map_of (stop_sequences p) ''T1'') = Some [1, 1])
   \<and> \<not> sorted_wrt (<) [1, 1 :: int]"
  by (simp add: example_defs)

lemma absent_tables:
  assumes "process_gtfs_data R g = Inr p"
  shows "(raw_routes g = None \<longrightarrow> routes p = [])
       \<and> (raw_trips g = None \<longrightarrow> trips p = [])
       \<and> (raw_stops g = None \<longrightarrow> stops p = [])
       \<and> (raw_stop_times g = None \<longrightarrow> stop_sequences p = [])"
  using assms
  by (auto simp: process_gtfs_data_def Let_def sort_sequences_def split: sum.splits)

lemma trip_of_row_key:
  "trip_of_row R row = Inr (k, t) \<Longrightarrow> k = row_key R ''trip_id'' row"
  by (auto simp: trip_of_row_def row_key_def Let_def split: sum.splits)

lemma stop_of_row_key:
  "stop_of_row R row = Inr (k, s) \<Longrightarrow> k = row_key R ''stop_id'' row"
  by (auto simp: stop_of_row_def row_key_def Let_def split: sum.splits)

lemma last_row_Some:
  "last_row R kn k rows = Some row \<Longrightarrow> row \<in> set rows \<and> row_key R kn row = k"
  by (induction rows) (auto split: option.splits if_splits)

text \<open>The loops over the trip rows and the stop rows: the record stored under a key is the
  one of the last row with that key.\<close>

lemma process_trips_last:
  "process_trips R rows acc = Inr m \<Longrightarrow>
   map_of m k =
     (case last_row R ''trip_id'' k rows of
        None \<Rightarrow> map_of acc k
      | Some row \<Rightarrow> (case trip_of_row R row of Inr (k', t) \<Rightarrow> Some t | Inl e \<Rightarrow> None))"
proof (induction rows arbitrary: acc)
  case Nil
  then show ?case by simp
next
  case (Cons row rows)
  from Cons.prems obtain k' v' where r: "trip_of_row R row = Inr (k', v')"
    and rest: "process_trips R rows (AList.update k' v' acc) = Inr m"
    by (auto split: sum.splits)
  from r have "k' = row_key R ''trip_id'' row" by (rule trip_of_row_key)
  with Cons.IH [OF rest] r show ?case
    by (auto simp: update_conv' split: option.splits)
qed

lemma process_stops_last:
  "process_stops R rows acc = Inr m \<Longrightarrow>
   map_of m k =
     (case last_row R ''stop_id'' k rows of
        None \<Rightarrow> map_of acc k
      | Some row \<Rightarrow> (case stop_of_row R row of Inr (k', s) \<Rightarrow> Some s | Inl e \<Rightarrow> None))"
proof (induction rows arbitrary: acc)
  case Nil
  then show ?case by simp
next
  case (Cons row rows)
  from Cons.prems obtain k' v' where r: "stop_of_row R row = Inr (k', v')"
    and rest: "process_stops R rows (AList.update k' v' acc) = Inr m"
    by (auto split: sum.splits)
  from r have "k' = row_key R ''stop_id'' row" by (rule stop_of_row_key)
  with Cons.IH [OF rest] r show ?case
    by (auto simp: update_conv' split: option.splits)
qed

lemma trip_of_row_field:
  "trip_of_row R row = Inr (k, t) \<Longrightarrow> int_field_is R row ''direction_id'' (t_direction_id t)"
  by (auto simp: trip_of_row_def int_field_is_def get_or_def Let_def split: sum.splits option.splits)

lemma stop_of_row_field:
  "stop_of_row R row = Inr (k, s) \<Longrightarrow>
   float_field_is R row ''stop_lat'' (s_stop_lat s) \<and> float_field_is R row ''stop_lon'' (s_stop_lon s)"
  by (auto simp: stop_of_row_def float_field_is_def get_or_def Let_def split: sum.splits option.splits)

lemma stop_time_of_row_field:
  "stop_time_of_row R row = Inr (k, e) \<Longrightarrow> int_field_is R row ''stop_sequence'' (stop_sequence e)"
  by (auto simp: stop_time_of_row_def int_field_is_def get_or_def Let_def split: sum.splits option.splits)

lemma trips_fields:
  assumes "process_gtfs_data R g = Inr p"
  shows "case last_row R ''trip_id'' k (rows_of (raw_trips g)) of
           None \<Rightarrow> map_of (trips p) k = None
         | Some row \<Rightarrow>
             (\<exists>t. map_of (trips p) k = Some t \<and> trip_of_row R row = Inr (k, t)
                  \<and> int_field_is R row ''direction_id'' (t_direction_id t))"
proof (cases "raw_trips g")
  case None
  with assms show ?thesis by (auto simp: process_gtfs_data_def Let_def rows_of_def split: sum.splits)
next
  case (Some rows)
  with assms have built: "process_trips R rows [] = Inr (trips p)"
    by (auto simp: process_gtfs_data_def Let_def split: sum.splits)
  then have ok: "list_all (int_field_ok R ''direction_id'') rows"
    using process_trips_ok [of R rows "[]"] by simp
  show ?thesis
  proof (cases "last_row R ''trip_id'' k rows")
    case None
    then show ?thesis using process_trips_last [OF built, of k] Some by (simp add: rows_of_def)
  next
    case (Some row)
    then have mem: "row \<in> set rows" and key: "row_key R ''trip_id'' row = k"
      using last_row_Some by blast+
    from mem ok have "\<not> isl (trip_of_row R row)" by (simp add: list_all_iff trip_of_row_ok)
    then obtain k' t where r: "trip_of_row R row = Inr (k', t)"
      by (cases "trip_of_row R row") auto
    with key have r': "trip_of_row R row = Inr (k, t)" using trip_of_row_key by blast
    then have "map_of (trips p) k = Some t"
      using process_trips_last [OF built, of k] Some by simp
    with r' show ?thesis using Some \<open>raw_trips g = Some rows\<close>
      by (auto simp: rows_of_def dest: trip_of_row_field)
  qed
qed

lemma stops_fields:
  assumes "process_gtfs_data R g = Inr p"
  shows "case last_row R ''stop_id'' k (rows_of (raw_stops g)) of
           None \<Rightarrow> map_of (stops p) k = None
         | Some row \<Rightarrow>
             (\<exists>s. map_of (stops p) k = Some s \<and> stop_of_row R row = Inr (k, s)
                  \<and> float_field_is R row ''stop_lat'' (s_stop_lat s)
                  \<and> float_field_is R row ''stop_lon'' (s_stop_lon s))"
proof (cases "raw_stops g")
  case None
  with assms show ?thesis by (auto simp: process_gtfs_data_def Let_def rows_of_def split: sum.splits)
next
  case (Some rows)
  with assms have built: "process_stops R rows [] = Inr (stops p)"
    by (auto simp: process_gtfs_data_def Let_def split: sum.splits)
  then have ok: "list_all (\<lambda>row. float_field_ok R ''stop_lat'' row \<and> float_field_ok R ''stop_lon'' row) rows"
    using process_stops_ok [of R rows "[]"] by simp
  show ?thesis
  proof (cases "last_row R ''stop_id'' k rows")
    case None
    then show ?thesis using process_stops_last [OF built, of k] Some by (simp add: rows_of_def)
  next
    case (Some row)
    then have mem: "row \<in> set rows" and key: "row_key R ''stop_id'' row = k"
      using last_row_Some by blast+
    from mem ok have "\<not> isl (stop_of_row R row)"
      using stop_of_row_ok [of R row] by (simp add: list_all_iff)
    then obtain k' s where r: "stop_of_row R row = Inr (k', s)"
      by (cases "stop_of_row R row") auto
    with key have r': "stop_of_row R row = Inr (k, s)" using stop_of_row_key by blast
    then have "map_of (stops p) k = Some s"
      using process_stops_last [OF built, of k] Some by simp
    with r' show ?thesis using Some \<open>raw_stops g = Some rows\<close>
      by (auto simp: rows_of_def dest: stop_of_row_field)
  qed
qed

lemma set_entries_of:
  "e \<in> set (entries_of R k rows) \<longleftrightarrow> (\<exists>row \<in> set rows. stop_time_of_row R row = Inr (k, e))"
  by (induction rows) (auto simp: entries_of_Cons entries_of_Nil split: sum.splits)

lemma sequences_fields:
  assumes "process_gtfs_data R g = Inr p"
  shows "(\<exists>es. map_of (stop_sequences p) k = Some es \<and> e \<in> set es)
         \<longleftrightarrow> (\<exists>row \<in> set (rows_of (raw_stop_times g)). stop_time_of_row R row = Inr (k, e))"
  using stored_sequence_entries [OF assms, of k] set_entries_of [of e R k "rows_of (raw_stop_times g)"]
  by (auto split: if_splits)

text \<open>
  C5, as the code has it. Index construction succeeds exactly when every \<^verbatim>\<open>direction_id\<close>,
  \<^verbatim>\<open>stop_lat\<close>, \<^verbatim>\<open>stop_lon\<close> and \<^verbatim>\<open>stop_sequence\<close> that is present converts with \<^verbatim>\<open>int\<close> or \<^verbatim>\<open>float\<close>;
  an absent table never makes it fail. When it succeeds, the sub-map of an absent routes,
  trips, stops or stop-times table is empty (the calendar table is not read); the record
  stored under a trip id or a stop id is the one built from the last row with that id, and
  the entries stored for a trip are exactly those built from the stop-time rows of that
  trip; in each of them a numeric field is the default 0 or 0.0 when the row has no such
  key and the converted value otherwise.
\<close>

theorem index_build_tolerance:
  "(numeric_fields_ok R g \<longleftrightarrow> (\<exists>idx. process_gtfs_data R g = Inr idx))
   \<and> (process_gtfs_data R g = Inr p \<longrightarrow>
        (raw_routes g = None \<longrightarrow> routes p = [])
      \<and> (raw_trips g = None \<longrightarrow> trips p = [])
      \<and> (raw_stops g = None \<longrightarrow> stops p = [])
      \<and> (raw_stop_times g = None \<longrightarrow> stop_sequences p = [])
      \<and> (\<forall>k. case last_row R ''trip_id'' k (rows_of (raw_trips g)) of
                None \<Rightarrow> map_of (trips p) k = None
              | Some row \<Rightarrow>
                  (\<exists>t. map_of (trips p) k = Some t \<and> trip_of_row R row = Inr (k, t)
                       \<and> int_field_is R row ''direction_id'' (t_direction_id t)))
      \<and> (\<forall>k. case last_row R ''stop_id'' k (rows_of (raw_stops g)) of
                None \<Rightarrow> map_of (stops p) k = None
              | Some row \<Rightarrow>
                  (\<exists>s. map_of (stops p) k = Some s \<and> stop_of_row R row = Inr (k, s)
                       \<and> float_field_is R row ''stop_lat'' (s_stop_lat s)
                       \<and> float_field_is R row ''stop_lon'' (s_stop_lon s)))
      \<and> (\<forall>k e. (\<exists>es. map_of (stop_sequences p) k = Some es \<and> e \<in> set es)
                \<longleftrightarrow> (\<exists>row \<in> set (rows_of (raw_stop_times g)). stop_time_of_row R row = Inr (k, e)))
      \<and> (\<forall>k e row. stop_time_of_row R row = Inr (k, e) \<longrightarrow>
            int_field_is R row ''stop_sequence'' (stop_sequence e)))"
proof (intro conjI impI allI)
  show "numeric_fields_ok R g \<longleftrightarrow> (\<exists>idx. process_gtfs_data R g = Inr idx)"
    by (rule process_gtfs_data_ok)
next
  assume p: "process_gtfs_data R g = Inr p"
  { assume "raw_routes g = None" then show "routes p = []" using absent_tables [OF p] by simp }
  { assume "raw_trips g = None" then show "trips p = []" using absent_tables [OF p] by simp }
  { assume "raw_stops g = None" then show "stops p = []" using absent_tables [OF p] by simp }
  { assume "raw_stop_times g = None" then show "stop_sequences p = []" using absent_tables [OF p] by simp }
  { fix k show "case last_row R ''trip_id'' k (rows_of (raw_trips g)) of
                None \<Rightarrow> map_of (trips p) k = None
              | Some row \<Rightarrow>
                  (\<exists>t. map_of (trips p) k = Some t \<and> trip_of_row R row = Inr (k, t)
                       \<and> int_field_is R row ''direction_id'' (t_direction_id t))"
      by (rule trips_fields [OF p]) }
  { fix k show "case last_row R ''stop_id'' k (rows_of (raw_stops g)) of
                None \<Rightarrow> map_of (stops p) k = None
              | Some row \<Rightarrow>
                  (\<exists>s. map_of (stops p) k = Some s \<and> stop_of_row R row = Inr (k, s)
                       \<and> float_field_is R row ''stop_lat'' (s_stop_lat s)
                       \<and> float_field_is R row ''stop_lon'' (s_stop_lon s))"
      by (rule stops_fields [OF p]) }
  { fix k e show "(\<exists>es. map_of (stop_sequences p) k = Some es \<and> e \<in> set es)
                \<longleftrightarrow> (\<exists>row \<in> set (rows_of (raw_stop_times g)). stop_time_of_row R row = Inr (k, e))"
      by (rule sequences_fields [OF p]) }
  { fix k e row assume "stop_time_of_row R row = Inr (k, e)"
    then show "int_field_is R row ''stop_sequence'' (stop_sequence e)"
      by (rule stop_time_of_row_field) }
qed

text \<open>
  The missing-table example of the specification, with a trip row that has no
  \<^verbatim>\<open>direction_id\<close>: the build succeeds, the stops map is empty and the direction is 0. With a
  second trip row of direction 1, each trip keeps its own direction.
\<close>

theorem index_build_tolerance_witness:
  "numeric_fields_ok sample_runtime gtfs_no_stops
   \<and> process_gtfs_data sample_runtime gtfs_no_stops = Inr index_no_stops
   \<and> raw_stops gtfs_no_stops = None
   \<and> stops index_no_stops = []
   \<and> last_row sample_runtime ''trip_id'' ''T1'' (rows_of (raw_trips gtfs_no_stops))
       = Some [(''trip_id'', PStr ''T1''), (''route_id'', PStr ''R1'')]
   \<and> map_option t_direction_id (map_of (trips index_no_stops) ''T1'') = Some 0
   \<and> (case process_gtfs_data sample_runtime gtfs_two_trips of
        Inl e \<Rightarrow> False
      | Inr idx \<Rightarrow> map (\<lambda>(k, t). (k, t_direction_id t)) (trips idx) = [(''T1'', 0), (''T2'', 1)])"
proof -
  note t = index_build_tolerance [of sample_runtime gtfs_no_stops index_no_stops]
  have ok: "numeric_fields_ok sample_runtime gtfs_no_stops"
    using t index_no_stops_built by blast
  have absent: "raw_stops gtfs_no_stops = None" by (simp add: gtfs_no_stops_def)
  have "stops index_no_stops = []"
    using t index_no_stops_built absent by blast
  moreover have l: "last_row sample_runtime ''trip_id'' ''T1'' (rows_of (raw_trips gtfs_no_stops))
       = Some [(''trip_id'', PStr ''T1''), (''route_id'', PStr ''R1'')]"
    by (simp add: gtfs_no_stops_def rows_of_def row_key_def get_or_def)
  moreover have "map_option t_direction_id (map_of (trips index_no_stops) ''T1'') = Some 0"
  proof -
    from t index_no_stops_built have "case last_row sample_runtime ''trip_id'' ''T1'' (rows_of (raw_trips gtfs_no_stops)) of
                None \<Rightarrow> map_of (trips index_no_stops) ''T1'' = None
              | Some row \<Rightarrow>
                  (\<exists>t. map_of (trips index_no_stops) ''T1'' = Some t \<and> trip_of_row sample_runtime row = Inr (''T1'', t)
                       \<and> int_field_is sample_runtime row ''direction_id'' (t_direction_id t))"
      by blast
    with l show ?thesis by (auto simp: int_field_is_def)
  qed
  moreover have "case process_gtfs_data sample_runtime gtfs_two_trips of
        Inl e \<Rightarrow> False
      | Inr idx \<Rightarrow> map (\<lambda>(k, t). (k, t_direction_id t)) (trips idx) = [(''T1'', 0), (''T2'', 1)]"
    by (simp add: example_defs)
  ultimately show ?thesis using ok absent index_no_stops_built by simp
qed

text \<open>C5 as stated fails: a \<^verbatim>\<open>direction_id\<close> that is present and does not convert (the string
  \<^verbatim>\<open>abc\<close>, or the NaN of an empty cell) is not replaced by the default; \<^verbatim>\<open>int\<close> raises and the
  whole construction fails.\<close>

theorem unparsable_direction_counterexample:
  "process_gtfs_data sample_runtime gtfs_bad_direction = Inl ValueError
   \<and> process_gtfs_data sample_runtime gtfs_nan_direction = Inl ValueError"
  by (simp add: example_defs)

text \<open>
  C9. \<^verbatim>\<open>get_trip_stops\<close> returns, in the stored order, every stop-sequence entry of the trip
  that has a stop record, joined with that record, and the empty list for a trip that the
  index does not know.
\<close>

theorem get_trip_stops_contract:
  "get_trip_stops trip_id idx = spec_trip_stops trip_id idx
   \<and> (map_of (stop_sequences idx) trip_id = None \<longrightarrow> get_trip_stops trip_id idx = [])"
  by (simp add: get_trip_stops_def spec_trip_stops_def join_stops_map_filter split: option.splits)

theorem get_trip_stops_contract_witness:
  "map_of (stop_sequences reversed_index) ''T9'' = None
   \<and> get_trip_stops ''T9'' reversed_index = []
   \<and> get_trip_stops ''T1'' reversed_index =
       [\<lparr>ts_stop_sequence = 1, ts_stop_id = ''A'', ts_stop_name = PStr ''Alpha'',
         ts_arrival_time = PStr ''08:00:00'', ts_departure_time = PStr ''08:01:00''\<rparr>,
        \<lparr>ts_stop_sequence = 2, ts_stop_id = ''B'', ts_stop_name = PStr ''Beta'',
         ts_arrival_time = PStr ''08:05:00'', ts_departure_time = PStr ''08:06:00''\<rparr>]"
proof -
  have unknown: "map_of (stop_sequences reversed_index) ''T9'' = None"
    by (simp add: reversed_index_def)
  then have "get_trip_stops ''T9'' reversed_index = []"
    using get_trip_stops_contract [of "''T9''" reversed_index] by blast
  moreover have "spec_trip_stops ''T1'' reversed_index =
       [\<lparr>ts_stop_sequence = 1, ts_stop_id = ''A'', ts_stop_name = PStr ''Alpha'',
         ts_arrival_time = PStr ''08:00:00'', ts_departure_time = PStr ''08:01:00''\<rparr>,
        \<lparr>ts_stop_sequence = 2, ts_stop_id = ''B'', ts_stop_name = PStr ''Beta'',
         ts_arrival_time = PStr ''08:05:00'', ts_departure_time = PStr ''08:06:00''\<rparr>]"
    by (simp add: spec_trip_stops_def reversed_index_def stop_entry_def seq_entry_def joined_def
        map_filter_simps)
  ultimately show ?thesis
    using unknown get_trip_stops_contract [of "''T1''" reversed_index] by simp
qed


subsection \<open>Heading\<close>

lemma fmod_range:
  assumes "0 < m"
  shows "0 \<le> fmod x m \<and> fmod x m < m"
proof -
  have lo: "of_int \<lfloor>x / m\<rfloor> \<le> x / m" and hi: "x / m < of_int \<lfloor>x / m\<rfloor> + 1"
    by linarith+
  have "of_int \<lfloor>x / m\<rfloor> * m \<le> (x / m) * m"
    using lo assms by (intro mult_right_mono) simp_all
  moreover have "(x / m) * m < (of_int \<lfloor>x / m\<rfloor> + 1) * m"
    using hi assms by (intro mult_strict_right_mono) simp_all
  moreover have "(x / m) * m = x" using assms by simp
  ultimately have "of_int \<lfloor>x / m\<rfloor> * m \<le> x" and "x < (of_int \<lfloor>x / m\<rfloor> + 1) * m"
    by simp_all
  then show ?thesis by (simp add: fmod_def algebra_simps)
qed

text \<open>On finite coordinates \<^verbatim>\<open>calculate_bearing\<close> raises nothing and returns the great-circle
  bearing.\<close>

lemma calculate_bearing_finite:
  "calculate_bearing (Fin lat1) (Fin lon1) (Fin lat2) (Fin lon2)
   = Inr (Fin (great_circle_bearing lat1 lon1 lat2 lon2))"
  by (simp add: calculate_bearing_def great_circle_bearing_def Let_def f_sub_def)

lemma py_float_errors:
  "py_float R v = Inl e \<Longrightarrow> e = ValueError \<or> e = TypeError \<or> e = OverflowError"
  by (cases v) (auto simp: float_of_int_def split: if_splits option.splits)

lemma bearing_of_no_prior:
  assumes "previous_positions d = None" and "\<not> bearing_overflows R gps"
  shows "bearing_of R gps previous_positions d lat lon = Inr (fallback_bearing R gps)"
proof (cases "map_of gps ''bearing''")
  case None
  with assms(1) show ?thesis by (simp add: bearing_of_def fallback_bearing_def get_def)
next
  case (Some b)
  show ?thesis
  proof (cases "py_float R b")
    case (Inl e)
    with assms(2) Some have "e \<noteq> OverflowError" by (auto simp: bearing_overflows_def)
    with Inl have "caught e" using py_float_errors [OF Inl] by (auto simp: caught_def)
    with Inl Some assms(1) show ?thesis
      by (auto simp: bearing_of_def fallback_bearing_def get_def split: pyval.splits)
  next
    case (Inr x)
    with Some assms(1) show ?thesis
      by (auto simp: bearing_of_def fallback_bearing_def get_def split: pyval.splits)
  qed
qed

lemma bearing_of_no_prior_overflow:
  assumes "previous_positions d = None" and "bearing_overflows R gps"
  shows "bearing_of R gps previous_positions d lat lon = Inl OverflowError"
proof -
  from assms(2) obtain b where b: "map_of gps ''bearing'' = Some b" "py_float R b = Inl OverflowError"
    by (auto simp: bearing_overflows_def split: option.splits)
  then have "b \<noteq> PNone" by auto
  with b assms(1) show ?thesis
    by (auto simp: bearing_of_def get_def caught_def split: pyval.splits)
qed

lemma bearing_of_valid:
  "previous_positions d = Some p \<Longrightarrow> latitude p = Fin plat \<Longrightarrow> longitude p = Fin plon \<Longrightarrow>
   a \<noteq> 0 \<Longrightarrow> b \<noteq> 0 \<Longrightarrow> plat \<noteq> 0 \<Longrightarrow> plon \<noteq> 0 \<Longrightarrow>
   bearing_of R gps previous_positions d (Fin a) (Fin b) =
     Inr (Fin (great_circle_bearing plat plon a b))"
  by (simp add: bearing_of_def calculate_bearing_finite)

lemma bearing_of_invalid:
  "previous_positions d = Some p \<Longrightarrow>
   lat = Fin 0 \<or> lon = Fin 0 \<or> latitude p = Fin 0 \<or> longitude p = Fin 0 \<Longrightarrow>
   bearing_of R gps previous_positions d lat lon = py_float R (get_or gps ''bearing'' (PFloat (Fin 0)))"
  by (auto simp add: bearing_of_def)

lemma fallback_of_float:
  "(case py_float R (get_or gps ''bearing'' (PFloat (Fin 0))) of Inl e \<Rightarrow> Fin 0 | Inr b \<Rightarrow> b)
   = fallback_bearing R gps"
  by (simp add: fallback_bearing_def get_or_def split: option.splits)

lemma overflow_of_float:
  "bearing_overflows R gps \<longleftrightarrow> py_float R (get_or gps ''bearing'' (PFloat (Fin 0))) = Inl OverflowError"
  by (simp add: bearing_overflows_def get_or_def split: option.splits)

text \<open>What the position block does once latitude and longitude have converted.\<close>

lemma set_position_converted:
  assumes "py_float R (get_or gps ''latitude'' (PFloat (Fin 0))) = Inr lat"
    and "py_float R (get_or gps ''longitude'' (PFloat (Fin 0))) = Inr lon"
  shows "set_position R clk gps previous_positions =
     (case bearing_of R gps previous_positions (py_str R (get gps ''device_id'')) lat lon of
        Inl e \<Rightarrow> position_handler R previous_positions e
      | Inr bearing \<Rightarrow>
          (Inr \<lparr>p_latitude = narrow32 R lat, p_longitude = narrow32 R lon,
                p_bearing = narrow32 R bearing\<rparr>,
           previous_positions(py_str R (get gps ''device_id'') \<mapsto>
             \<lparr>latitude = lat, longitude = lon, timestamp = now clk\<rparr>)))"
  using assms by (simp add: set_position_def Let_def)

text \<open>Due south and due east: two bearings that are exact.\<close>

lemma due_south: "great_circle_bearing 40.5 (-75) 40 (-75) = 180"
proof -
  let ?a = "radians 40.5" and ?b = "radians 40"
  have "cos ?a * sin ?b - sin ?a * cos ?b = - sin (?a - ?b)"
    by (simp add: sin_diff)
  moreover have "0 < sin (?a - ?b)"
    by (rule sin_gt_zero) (use pi_gt_zero in \<open>simp_all add: radians_def\<close>)
  ultimately have x: "cos ?a * sin ?b - sin ?a * cos ?b < 0" by simp
  have "great_circle_bearing 40.5 (-75) 40 (-75) =
        fmod (degrees (atan2 0 (cos ?a * sin ?b - sin ?a * cos ?b)) + 360) 360"
    by (simp add: great_circle_bearing_def)
  also have "atan2 0 (cos ?a * sin ?b - sin ?a * cos ?b) = pi"
    using x by (simp add: atan2_def)
  also have "degrees pi = 180" by (simp add: degrees_def)
  also have "fmod (180 + 360) 360 = (180::real)"
  proof -
    have "\<lfloor>(540::real) / 360\<rfloor> = 1" by linarith
    then show ?thesis by (simp add: fmod_def)
  qed
  finally show ?thesis .
qed

lemma equator_east: "great_circle_bearing 0 1 0 2 = 90"
proof -
  have s: "0 < sin (pi / 180)"
    by (rule sin_gt_zero) (use pi_gt_zero in simp_all)
  have "radians 2 - radians 1 = pi / 180" by (simp add: radians_def)
  then have "great_circle_bearing 0 1 0 2 = fmod (degrees (atan2 (sin (pi / 180)) 0) + 360) 360"
    by (simp add: great_circle_bearing_def radians_def)
  also have "atan2 (sin (pi / 180)) 0 = pi / 2" using s by (simp add: atan2_def)
  also have "degrees (pi / 2) = 90" by (simp add: degrees_def)
  also have "fmod (90 + 360) 360 = (90::real)"
  proof -
    have "\<lfloor>(450::real) / 360\<rfloor> = 1" by linarith
    then show ?thesis by (simp add: fmod_def)
  qed
  finally show ?thesis .
qed

lemmas position_defs = set_position_def bearing_of_def fix_with_bearing_def fix_of_def
  stored_fix_def get_or_def get_def Let_def sample_clock_def sample_runtime_def
  position_handler_def zero_position_def caught_def

text \<open>
  C2, as the code has it. Let latitude and longitude convert to floats. If a fix is stored
  for the device, all four coordinates are finite and none of them is zero, the bearing is
  the great-circle initial bearing from the stored fix to the current one, a value in
  \<open>[0, 360)\<close>; the message holds it narrowed to a 32-bit float. If no fix is stored, or some
  coordinate of either point is zero, the bearing is the fallback: the \<^verbatim>\<open>bearing\<close> field as a
  float, and \<open>0.0\<close> when it is absent or does not convert. When in that case the \<^verbatim>\<open>bearing\<close>
  field is an integer beyond the range of a double, \<^verbatim>\<open>float\<close> raises \<^verbatim>\<open>OverflowError\<close> out of the
  function and nothing is emitted.
\<close>

theorem emitted_bearing:
  assumes lat: "py_float R (get_or gps ''latitude'' (PFloat (Fin 0))) = Inr lat"
    and lon: "py_float R (get_or gps ''longitude'' (PFloat (Fin 0))) = Inr lon"
  shows "(\<forall>p plat plon a b.
            previous_positions (py_str R (get gps ''device_id'')) = Some p
            \<and> latitude p = Fin plat \<and> longitude p = Fin plon \<and> lat = Fin a \<and> lon = Fin b
            \<and> a \<noteq> 0 \<and> b \<noteq> 0 \<and> plat \<noteq> 0 \<and> plon \<noteq> 0 \<longrightarrow>
            (\<exists>pos. fst (set_position R clk gps previous_positions) = Inr pos
                  \<and> p_bearing pos = narrow32 R (Fin (great_circle_bearing plat plon a b))))
       \<and> (previous_positions (py_str R (get gps ''device_id'')) = None
            \<or> (\<exists>p. previous_positions (py_str R (get gps ''device_id'')) = Some p
                   \<and> (lat = Fin 0 \<or> lon = Fin 0 \<or> latitude p = Fin 0 \<or> longitude p = Fin 0)) \<longrightarrow>
            (\<not> bearing_overflows R gps \<longrightarrow>
               (\<exists>pos. fst (set_position R clk gps previous_positions) = Inr pos
                     \<and> p_bearing pos = narrow32 R (fallback_bearing R gps)))
            \<and> (bearing_overflows R gps \<longrightarrow>
                  fst (set_position R clk gps previous_positions) = Inl OverflowError))
       \<and> 0 \<le> great_circle_bearing lat1 lon1 lat2 lon2
       \<and> great_circle_bearing lat1 lon1 lat2 lon2 < 360"
proof (intro conjI allI impI)
  let ?d = "py_str R (get gps ''device_id'')"
  note conv = set_position_converted [OF lat lon, of clk previous_positions]
  show "0 \<le> great_circle_bearing lat1 lon1 lat2 lon2"
    and "great_circle_bearing lat1 lon1 lat2 lon2 < 360"
    unfolding great_circle_bearing_def using fmod_range [of 360] by simp_all
  { fix p plat plon a b
    assume "previous_positions ?d = Some p
            \<and> latitude p = Fin plat \<and> longitude p = Fin plon \<and> lat = Fin a \<and> lon = Fin b
            \<and> a \<noteq> 0 \<and> b \<noteq> 0 \<and> plat \<noteq> 0 \<and> plon \<noteq> 0"
    then have "bearing_of R gps previous_positions ?d lat lon
               = Inr (Fin (great_circle_bearing plat plon a b))"
      by (simp add: bearing_of_valid)
    then show "\<exists>pos. fst (set_position R clk gps previous_positions) = Inr pos
                  \<and> p_bearing pos = narrow32 R (Fin (great_circle_bearing plat plon a b))"
      by (simp add: conv) }
  { assume fb: "previous_positions ?d = None
            \<or> (\<exists>p. previous_positions ?d = Some p
                   \<and> (lat = Fin 0 \<or> lon = Fin 0 \<or> latitude p = Fin 0 \<or> longitude p = Fin 0))"
    { assume no: "\<not> bearing_overflows R gps"
      show "\<exists>pos. fst (set_position R clk gps previous_positions) = Inr pos
                     \<and> p_bearing pos = narrow32 R (fallback_bearing R gps)"
      proof (cases "previous_positions ?d")
        case None
        then show ?thesis using no by (simp add: conv bearing_of_no_prior)
      next
        case (Some p)
        with fb have z: "lat = Fin 0 \<or> lon = Fin 0 \<or> latitude p = Fin 0 \<or> longitude p = Fin 0"
          by auto
        note b = bearing_of_invalid [of previous_positions "py_str R (get gps ''device_id'')" p lat lon R gps, OF Some z]
        show ?thesis
        proof (cases "py_float R (get_or gps ''bearing'' (PFloat (Fin 0)))")
          case (Inl e)
          with no have "e \<noteq> OverflowError" by (auto simp: overflow_of_float)
          with Inl have "caught e" using py_float_errors [OF Inl] by (auto simp: caught_def)
          moreover have "fallback_bearing R gps = Fin 0"
            using fallback_of_float [of R gps] Inl by simp
          ultimately show ?thesis using Inl b
            by (simp add: conv position_handler_def zero_position_def)
        next
          case (Inr x)
          moreover have "fallback_bearing R gps = x"
            using fallback_of_float [of R gps] Inr by simp
          ultimately show ?thesis using b by (simp add: conv)
        qed
      qed }
    { assume ov: "bearing_overflows R gps"
      show "fst (set_position R clk gps previous_positions) = Inl OverflowError"
      proof (cases "previous_positions ?d")
        case None
        then show ?thesis using ov
          by (simp add: conv bearing_of_no_prior_overflow position_handler_def caught_def)
      next
        case (Some p)
        with fb have z: "lat = Fin 0 \<or> lon = Fin 0 \<or> latitude p = Fin 0 \<or> longitude p = Fin 0"
          by auto
        from ov have "py_float R (get_or gps ''bearing'' (PFloat (Fin 0))) = Inl OverflowError"
          by (simp add: overflow_of_float)
        then show ?thesis using bearing_of_invalid [of previous_positions "py_str R (get gps ''device_id'')" p lat lon R gps, OF Some z]
          by (simp add: conv position_handler_def caught_def)
      qed } }
qed

text \<open>
  From (40.5, -75.0) to (40.0, -75.0) the emitted bearing is due south; a first fix with
  the bearing 90 emits 90; a first fix whose bearing is the integer \<open>2^1024\<close> raises
  \<^verbatim>\<open>OverflowError\<close>.
\<close>

theorem emitted_bearing_witness:
  "py_float sample_runtime (get_or (fix_of ''bus1'' 40 (-75)) ''latitude'' (PFloat (Fin 0))) = Inr (Fin 40)
   \<and> py_float sample_runtime (get_or (fix_of ''bus1'' 40 (-75)) ''longitude'' (PFloat (Fin 0))) = Inr (Fin (-75))
   \<and> fst (set_position sample_runtime sample_clock (fix_of ''bus1'' 40 (-75))
        (stored_fix ''bus1'' 40.5 (-75) 1705307370))
      = Inr \<lparr>p_latitude = Fin 40, p_longitude = Fin (-75), p_bearing = Fin 180\<rparr>
   \<and> fst (set_position sample_runtime sample_clock (fix_with_bearing ''bus1'' 40 (-75) (PFloat (Fin 90)))
        Map.empty)
      = Inr \<lparr>p_latitude = Fin 40, p_longitude = Fin (-75), p_bearing = Fin 90\<rparr>
   \<and> bearing_overflows sample_runtime (fix_with_bearing ''bus1'' 40 (-75) (PInt (2 ^ 1024)))
   \<and> fst (set_position sample_runtime sample_clock (fix_with_bearing ''bus1'' 40 (-75) (PInt (2 ^ 1024)))
        Map.empty)
      = Inl OverflowError"
proof -
  have lat: "py_float sample_runtime (get_or (fix_of ''bus1'' 40 (-75)) ''latitude'' (PFloat (Fin 0))) = Inr (Fin 40)"
    by (simp add: fix_of_def get_or_def)
  have lon: "py_float sample_runtime (get_or (fix_of ''bus1'' 40 (-75)) ''longitude'' (PFloat (Fin 0))) = Inr (Fin (-75))"
    by (simp add: fix_of_def get_or_def)
  have lat': "py_float sample_runtime (get_or (fix_with_bearing ''bus1'' 40 (-75) (PInt (2 ^ 1024))) ''latitude'' (PFloat (Fin 0))) = Inr (Fin 40)"
    by (simp add: fix_with_bearing_def fix_of_def get_or_def)
  have lon': "py_float sample_runtime (get_or (fix_with_bearing ''bus1'' 40 (-75) (PInt (2 ^ 1024))) ''longitude'' (PFloat (Fin 0))) = Inr (Fin (-75))"
    by (simp add: fix_with_bearing_def fix_of_def get_or_def)
  have ov: "bearing_overflows sample_runtime (fix_with_bearing ''bus1'' 40 (-75) (PInt (2 ^ 1024)))"
    by (simp add: bearing_overflows_def fix_with_bearing_def fix_of_def float_of_int_def)
  have none: "Map.empty (py_str sample_runtime (get (fix_with_bearing ''bus1'' 40 (-75) (PInt (2 ^ 1024))) ''device_id''))
              = (None :: prev_pos option)"
    by simp
  have south: "\<exists>pos. fst (set_position sample_runtime sample_clock (fix_of ''bus1'' 40 (-75))
        (stored_fix ''bus1'' 40.5 (-75) 1705307370)) = Inr pos
      \<and> p_bearing pos = narrow32 sample_runtime (Fin (great_circle_bearing 40.5 (-75) 40 (-75)))"
    using emitted_bearing [OF lat lon, of "stored_fix ''bus1'' 40.5 (-75) 1705307370" sample_clock]
    by (simp add: fix_of_def get_def stored_fix_def)
  have "fst (set_position sample_runtime sample_clock (fix_of ''bus1'' 40 (-75))
        (stored_fix ''bus1'' 40.5 (-75) 1705307370))
      = Inr \<lparr>p_latitude = Fin 40, p_longitude = Fin (-75), p_bearing = Fin 180\<rparr>"
  proof -
    from south obtain pos where pos: "fst (set_position sample_runtime sample_clock (fix_of ''bus1'' 40 (-75))
        (stored_fix ''bus1'' 40.5 (-75) 1705307370)) = Inr pos"
      and b0: "p_bearing pos = narrow32 sample_runtime (Fin (great_circle_bearing 40.5 (-75) 40 (-75)))"
      by blast
    from b0 have b: "p_bearing pos = Fin 180"
      unfolding due_south by (simp add: sample_runtime_def)
    have d: "py_str sample_runtime (get (fix_of ''bus1'' 40 (-75)) ''device_id'') = ''bus1''"
      by (simp add: fix_of_def get_def)
    have st: "stored_fix ''bus1'' 40.5 (-75) 1705307370 ''bus1''
              = Some \<lparr>latitude = Fin 40.5, longitude = Fin (-75), timestamp = 1705307370\<rparr>"
      by (simp add: stored_fix_def)
    have bo: "bearing_of sample_runtime (fix_of ''bus1'' 40 (-75))
                (stored_fix ''bus1'' 40.5 (-75) 1705307370) ''bus1'' (Fin 40) (Fin (-75))
              = Inr (Fin (great_circle_bearing 40.5 (-75) 40 (-75)))"
      by (rule bearing_of_valid [where previous_positions = "stored_fix ''bus1'' 40.5 (-75) 1705307370"
            and d = "''bus1''", OF st]) simp_all
    have "set_position sample_runtime sample_clock (fix_of ''bus1'' 40 (-75))
            (stored_fix ''bus1'' 40.5 (-75) 1705307370)
          = (Inr \<lparr>p_latitude = narrow32 sample_runtime (Fin 40),
                   p_longitude = narrow32 sample_runtime (Fin (-75)),
                   p_bearing = narrow32 sample_runtime (Fin (great_circle_bearing 40.5 (-75) 40 (-75)))\<rparr>,
             (stored_fix ''bus1'' 40.5 (-75) 1705307370)(''bus1'' \<mapsto>
                \<lparr>latitude = Fin 40, longitude = Fin (-75), timestamp = now sample_clock\<rparr>))"
      unfolding set_position_converted [OF lat lon] d bo by simp
    with pos have "p_latitude pos = Fin 40" and "p_longitude pos = Fin (-75)"
      by (auto simp: sample_runtime_def)
    with b pos show ?thesis by (cases pos) simp
  qed
  moreover have "fst (set_position sample_runtime sample_clock
        (fix_with_bearing ''bus1'' 40 (-75) (PFloat (Fin 90))) Map.empty)
      = Inr \<lparr>p_latitude = Fin 40, p_longitude = Fin (-75), p_bearing = Fin 90\<rparr>"
    by (simp add: position_defs)
  moreover have "fst (set_position sample_runtime sample_clock
        (fix_with_bearing ''bus1'' 40 (-75) (PInt (2 ^ 1024))) Map.empty) = Inl OverflowError"
    using emitted_bearing [OF lat' lon', of Map.empty sample_clock] ov none by blast
  ultimately show ?thesis using lat lon ov by simp
qed

text \<open>
  C2 as stated fails: with the fix (0, 1) stored and the current fix (0, 2), two points on
  the equator of which neither is the sentinel (0, 0), the specification's estimator gives
  the computed bearing 90 (due east), and the code emits the fallback, here 0.
\<close>

theorem bearing_zero_coordinate_counterexample:
  "fst (set_position sample_runtime sample_clock (fix_of ''bus1'' 0 2)
      (stored_fix ''bus1'' 0 1 1705307370))
     = Inr \<lparr>p_latitude = Fin 0, p_longitude = Fin 2, p_bearing = Fin 0\<rparr>
   \<and> spec_bearing sample_runtime (fix_of ''bus1'' 0 2)
       (stored_fix ''bus1'' 0 1 1705307370 ''bus1'') 0 2 = Fin 90"
proof -
  have "fst (set_position sample_runtime sample_clock (fix_of ''bus1'' 0 2)
      (stored_fix ''bus1'' 0 1 1705307370))
     = Inr \<lparr>p_latitude = Fin 0, p_longitude = Fin 2, p_bearing = Fin 0\<rparr>"
    by (simp add: position_defs)
  moreover have "spec_bearing sample_runtime (fix_of ''bus1'' 0 2)
       (stored_fix ''bus1'' 0 1 1705307370 ''bus1'') 0 2 = Fin 90"
    by (simp add: spec_bearing_def stored_fix_def sentinel_def equator_east)
  ultimately show ?thesis by simp
qed

text \<open>
  C3, as the code has it. Let latitude and longitude convert to floats. The table then maps
  the device to exactly the current latitude and longitude and the clock of the call, also
  when the coordinates are the sentinel (0, 0), in each of these cases: no fix is stored
  for the device and the \<^verbatim>\<open>bearing\<close> field is not an integer beyond the range of a double; a
  fix is stored, all four coordinates are finite and none of them is zero; a fix is stored,
  some coordinate is zero and the \<^verbatim>\<open>bearing\<close> field is absent or converts. When latitude or
  longitude does not convert, the table is left as it was.
\<close>

theorem baseline_overwrite:
  "(py_float R (get_or gps ''latitude'' (PFloat (Fin 0))) = Inr lat
    \<and> py_float R (get_or gps ''longitude'' (PFloat (Fin 0))) = Inr lon
    \<and> ((previous_positions (py_str R (get gps ''device_id'')) = None \<and> \<not> bearing_overflows R gps)
       \<or> (\<exists>p. previous_positions (py_str R (get gps ''device_id'')) = Some p
              \<and> lat \<noteq> Fin 0 \<and> lon \<noteq> Fin 0 \<and> latitude p \<noteq> Fin 0 \<and> longitude p \<noteq> Fin 0
              \<and> is_fin lat \<and> is_fin lon \<and> is_fin (latitude p) \<and> is_fin (longitude p))
       \<or> (\<exists>p. previous_positions (py_str R (get gps ''device_id'')) = Some p
              \<and> (lat = Fin 0 \<or> lon = Fin 0 \<or> latitude p = Fin 0 \<or> longitude p = Fin 0)
              \<and> \<not> isl (py_float R (get_or gps ''bearing'' (PFloat (Fin 0))))))
    \<longrightarrow> snd (set_position R clk gps previous_positions) =
        previous_positions(py_str R (get gps ''device_id'') \<mapsto>
          \<lparr>latitude = lat, longitude = lon, timestamp = now clk\<rparr>))
   \<and> (isl (py_float R (get_or gps ''latitude'' (PFloat (Fin 0))))
       \<or> isl (py_float R (get_or gps ''longitude'' (PFloat (Fin 0))))
      \<longrightarrow> snd (set_position R clk gps previous_positions) = previous_positions)"
proof (intro conjI impI)
  let ?d = "py_str R (get gps ''device_id'')"
  assume a: "py_float R (get_or gps ''latitude'' (PFloat (Fin 0))) = Inr lat
    \<and> py_float R (get_or gps ''longitude'' (PFloat (Fin 0))) = Inr lon
    \<and> ((previous_positions ?d = None \<and> \<not> bearing_overflows R gps)
       \<or> (\<exists>p. previous_positions ?d = Some p
              \<and> lat \<noteq> Fin 0 \<and> lon \<noteq> Fin 0 \<and> latitude p \<noteq> Fin 0 \<and> longitude p \<noteq> Fin 0
              \<and> is_fin lat \<and> is_fin lon \<and> is_fin (latitude p) \<and> is_fin (longitude p))
       \<or> (\<exists>p. previous_positions ?d = Some p
              \<and> (lat = Fin 0 \<or> lon = Fin 0 \<or> latitude p = Fin 0 \<or> longitude p = Fin 0)
              \<and> \<not> isl (py_float R (get_or gps ''bearing'' (PFloat (Fin 0))))))"
  then have lat: "py_float R (get_or gps ''latitude'' (PFloat (Fin 0))) = Inr lat"
    and lon: "py_float R (get_or gps ''longitude'' (PFloat (Fin 0))) = Inr lon" by simp_all
  from a consider
      (first) "previous_positions ?d = None" "\<not> bearing_overflows R gps"
    | (valid) p where "previous_positions ?d = Some p"
        "lat \<noteq> Fin 0" "lon \<noteq> Fin 0" "latitude p \<noteq> Fin 0" "longitude p \<noteq> Fin 0"
        "is_fin lat" "is_fin lon" "is_fin (latitude p)" "is_fin (longitude p)"
    | (zero) p where "previous_positions ?d = Some p"
        "lat = Fin 0 \<or> lon = Fin 0 \<or> latitude p = Fin 0 \<or> longitude p = Fin 0"
        "\<not> isl (py_float R (get_or gps ''bearing'' (PFloat (Fin 0))))"
    by auto
  then have "\<exists>b. bearing_of R gps previous_positions ?d lat lon = Inr b"
  proof cases
    case first
    then show ?thesis by (simp add: bearing_of_no_prior)
  next
    case valid
    then obtain a b plat plon where "lat = Fin a" "lon = Fin b" "latitude p = Fin plat"
      "longitude p = Fin plon"
      by (auto simp: is_fin_def split: pyfloat.splits)
    with valid show ?thesis by (simp add: bearing_of_valid)
  next
    case zero
    from zero(3) obtain b where "py_float R (get_or gps ''bearing'' (PFloat (Fin 0))) = Inr b"
      by (cases "py_float R (get_or gps ''bearing'' (PFloat (Fin 0)))") auto
    then show ?thesis using bearing_of_invalid [of previous_positions "py_str R (get gps ''device_id'')" p lat lon R gps, OF zero(1,2)] by simp
  qed
  then obtain b where "bearing_of R gps previous_positions ?d lat lon = Inr b" ..
  then show "snd (set_position R clk gps previous_positions) =
        previous_positions(?d \<mapsto> \<lparr>latitude = lat, longitude = lon, timestamp = now clk\<rparr>)"
    by (simp add: set_position_converted [OF lat lon])
next
  assume "isl (py_float R (get_or gps ''latitude'' (PFloat (Fin 0))))
       \<or> isl (py_float R (get_or gps ''longitude'' (PFloat (Fin 0))))"
  then show "snd (set_position R clk gps previous_positions) = previous_positions"
    by (auto simp: set_position_def position_handler_def isl_def split: sum.splits)
qed

text \<open>
  The state-poisoning test of the specification: a first call with the sentinel (0, 0)
  stores the sentinel, and the second call consults it: its bearing is the fallback 90,
  not a computed one.
\<close>

theorem baseline_overwrite_witness:
  "snd (set_position sample_runtime sample_clock (fix_of ''bus1'' 0 0) Map.empty)
     = stored_fix ''bus1'' 0 0 (now sample_clock)
   \<and> set_position sample_runtime sample_clock (fix_with_bearing ''bus1'' 40.5 (-75) (PFloat (Fin 90)))
        (stored_fix ''bus1'' 0 0 (now sample_clock))
     = (Inr \<lparr>p_latitude = Fin 40.5, p_longitude = Fin (-75), p_bearing = Fin 90\<rparr>,
        stored_fix ''bus1'' 40.5 (-75) (now sample_clock))"
proof -
  have "\<not> bearing_overflows sample_runtime (fix_of ''bus1'' 0 0)"
    by (simp add: bearing_overflows_def fix_of_def)
  then have "snd (set_position sample_runtime sample_clock (fix_of ''bus1'' 0 0) Map.empty)
     = stored_fix ''bus1'' 0 0 (now sample_clock)"
    using baseline_overwrite [of sample_runtime "fix_of ''bus1'' 0 0" "Fin 0" "Fin 0" Map.empty sample_clock]
    by (simp add: fix_of_def get_or_def get_def stored_fix_def)
  moreover have "set_position sample_runtime sample_clock
        (fix_with_bearing ''bus1'' 40.5 (-75) (PFloat (Fin 90)))
        (stored_fix ''bus1'' 0 0 (now sample_clock))
     = (Inr \<lparr>p_latitude = Fin 40.5, p_longitude = Fin (-75), p_bearing = Fin 90\<rparr>,
        stored_fix ''bus1'' 40.5 (-75) (now sample_clock))"
    by (simp add: position_defs)
  ultimately show ?thesis by simp
qed

text \<open>
  C3 as stated fails, with the fix (40, -75) stored at an earlier time. A call whose
  \<^verbatim>\<open>latitude\<close> field is \<^verbatim>\<open>null\<close> leaves the stored fix and its timestamp as they were. So does
  a call with the sentinel (0, 0) and a \<^verbatim>\<open>bearing\<close> field that is \<^verbatim>\<open>null\<close>: the table does not
  map the device to (0, 0) and the time of the call.
\<close>

theorem baseline_kept_counterexample:
  "snd (set_position sample_runtime sample_clock
         [(''device_id'', PStr ''bus1''), (''latitude'', PNone), (''longitude'', PFloat (Fin (-75)))]
         (stored_fix ''bus1'' 40 (-75) 1705307370)) ''bus1''
     = Some \<lparr>latitude = Fin 40, longitude = Fin (-75), timestamp = 1705307370\<rparr>
   \<and> snd (set_position sample_runtime sample_clock (fix_with_bearing ''bus1'' 0 0 PNone)
         (stored_fix ''bus1'' 40 (-75) 1705307370)) ''bus1''
     = Some \<lparr>latitude = Fin 40, longitude = Fin (-75), timestamp = 1705307370\<rparr>
   \<and> snd (set_position sample_runtime sample_clock (fix_with_bearing ''bus1'' 0 0 PNone)
         (stored_fix ''bus1'' 40 (-75) 1705307370)) ''bus1''
     \<noteq> Some \<lparr>latitude = Fin 0, longitude = Fin 0, timestamp = now sample_clock\<rparr>"
  by (simp add: position_defs)

subsection \<open>Feed messages\<close>

lemma new_header_Inr:
  "new_header clk = Inr h \<Longrightarrow>
   h = \<lparr>gtfs_realtime_version = ''2.0'', h_timestamp = Some (trunc (now clk))\<rparr>"
  by (auto simp: new_header_def uint64_def split: if_splits)

lemma new_header_in_range:
  "clock_in_range clk \<Longrightarrow> \<exists>h. new_header clk = Inr h"
proof -
  assume "clock_in_range clk"
  then have "0 \<le> trunc (now clk)" and "trunc (now clk) < 2 ^ 63" by (simp_all add: clock_in_range_def)
  moreover have "(2::int) ^ 63 \<le> 2 ^ 64" by simp
  ultimately have "0 \<le> trunc (now clk) \<and> trunc (now clk) < 2 ^ 64" by linarith
  then show ?thesis by (simp add: new_header_def uint64_def)
qed

lemma stop_event_time_ok:
  "stop_event_time R clk t = Inr r \<Longrightarrow> event_time_ok R clk t r"
  by (auto simp: event_time_ok_def stop_event_time_def int64_def
      split: option.splits if_splits sum.splits)

lemma stop_event_time_in_range:
  "clock_in_range clk \<Longrightarrow> \<exists>r. stop_event_time R clk t = Inr r"
proof -
  assume "clock_in_range clk"
  then have "0 \<le> trunc (now clk)" and "trunc (now clk) < 2 ^ 63" by (simp_all add: clock_in_range_def)
  moreover have "- ((2::int) ^ 63) \<le> 0" by simp
  ultimately have "int64 (trunc (now clk)) = Inr (trunc (now clk))"
    unfolding int64_def by (simp only: if_True order_trans [of "- (2 ^ 63)" 0] simp_thms)
  then show ?thesis
    by (simp add: stop_event_time_def split: option.splits sum.splits)
qed

lemma stop_time_updates_in_range:
  "clock_in_range clk \<Longrightarrow>
   list_all (\<lambda>stop. 0 \<le> ts_stop_sequence stop \<and> ts_stop_sequence stop < 2 ^ 32) stop_list \<Longrightarrow>
   \<exists>updates. stop_time_updates R clk stop_list = Inr updates"
proof (induction stop_list)
  case Nil
  then show ?case by simp
next
  case (Cons stop rest)
  from Cons.prems(1) obtain a where a: "stop_event_time R clk (ts_arrival_time stop) = Inr a"
    using stop_event_time_in_range by blast
  from Cons.prems(1) obtain d where d: "stop_event_time R clk (ts_departure_time stop) = Inr d"
    using stop_event_time_in_range by blast
  from Cons obtain updates where "stop_time_updates R clk rest = Inr updates" by auto
  with Cons.prems(2) a d show ?case by (simp add: uint32_def)
qed

lemma stop_time_updates_sequences:
  "stop_time_updates R clk stop_list = Inr updates \<Longrightarrow>
   list_all (\<lambda>stop. 0 \<le> ts_stop_sequence stop \<and> ts_stop_sequence stop < 2 ^ 32) stop_list"
proof (induction stop_list arbitrary: updates)
  case Nil
  then show ?case by simp
next
  case (Cons stop rest)
  then show ?case by (auto simp: uint32_def split: sum.splits if_splits)
qed

lemma stop_time_updates_length:
  "stop_time_updates R clk stop_list = Inr updates \<Longrightarrow> length updates = length stop_list"
proof (induction stop_list arbitrary: updates)
  case Nil
  then show ?case by simp
next
  case (Cons stop rest)
  then show ?case by (auto simp: uint32_def split: sum.splits if_splits)
qed

lemma stop_time_updates_nth:
  "stop_time_updates R clk stop_list = Inr updates \<Longrightarrow> i < length stop_list \<Longrightarrow>
   stu_stop_sequence (updates ! i) = ts_stop_sequence (stop_list ! i)
   \<and> stu_stop_id (updates ! i) = ts_stop_id (stop_list ! i)
   \<and> stu_schedule_relationship (updates ! i) = 0
   \<and> event_time_ok R clk (ts_arrival_time (stop_list ! i)) (stu_arrival (updates ! i))
   \<and> event_time_ok R clk (ts_departure_time (stop_list ! i)) (stu_departure (updates ! i))"
proof (induction stop_list arbitrary: updates i)
  case Nil
  then show ?case by simp
next
  case (Cons stop rest)
  from Cons.prems(1) obtain sq a d us where
    sq: "uint32 (ts_stop_sequence stop) = Inr sq"
    and a: "stop_event_time R clk (ts_arrival_time stop) = Inr a"
    and d: "stop_event_time R clk (ts_departure_time stop) = Inr d"
    and us: "stop_time_updates R clk rest = Inr us"
    and u: "updates = \<lparr>stu_stop_sequence = sq, stu_stop_id = ts_stop_id stop, stu_arrival = a,
              stu_departure = d, stu_schedule_relationship = 0\<rparr> # us"
    by (auto split: sum.splits)
  from sq have sq': "sq = ts_stop_sequence stop" by (auto simp: uint32_def split: if_splits)
  show ?case
  proof (cases i)
    case 0
    then show ?thesis using u sq' stop_event_time_ok [OF a] stop_event_time_ok [OF d] by simp
  next
    case (Suc j)
    with Cons.prems(2) have "j < length rest" by simp
    from Cons.IH [OF us this] show ?thesis using u Suc by simp
  qed
qed

lemma create_trip_update_Inr:
  assumes "create_trip_update R clk gps idx = Inr m"
  shows "\<exists>hdr d updates.
           new_header clk = Inr hdr
           \<and> py_int R (get_or gps ''direction_id'' (PInt 0)) = Inr d \<and> 0 \<le> d \<and> d < 2 ^ 32
           \<and> stop_time_updates R clk (get_trip_stops (py_str R (get gps ''trip_id'')) idx) = Inr updates
           \<and> header m = hdr
           \<and> (\<exists>e u. entity m = [e] \<and> e_body e = TripUpdate u \<and> tu_stop_time_update u = updates)"
  using assms
  by (auto simp: create_trip_update_def Let_def uint32_def split: sum.splits if_splits)

lemmas builder_defs = create_trip_update_def create_vehicle_position_def create_service_alert_def
  stop_time_updates_of_def stop_event_time_def resolved_fix_def
  new_header_def trunc_def sample_alert_def uint32_def uint64_def int64_def

text \<open>
  C6, as the code has it. A trip update is built only if \<^verbatim>\<open>direction_id\<close> converts to an
  integer of the unsigned 32-bit range and every stop sequence number of the trip is of
  that range (a negative one raises \<^verbatim>\<open>ValueError\<close>); with these inputs, and a clock that the
  timestamp fields hold, it is built. The message built has one stop-time update for every
  stop that \<^verbatim>\<open>get_trip_stops\<close> returns, in that order, carrying the stop's sequence number and
  id and the schedule relationship 0. Its arrival (and likewise its departure) is unset
  when the stop's schedule time is empty; otherwise it is the timestamp of today's date
  with that time, and the current time when that does not parse.
\<close>

theorem trip_update_stop_times:
  "(clock_in_range clk \<and> trip_update_buildable R gps idx \<longrightarrow>
      (\<exists>m. create_trip_update R clk gps idx = Inr m))
   \<and> (create_trip_update R clk gps idx = Inr m \<longrightarrow>
      trip_update_buildable R gps idx
      \<and> length (stop_time_updates_of m) = length (get_trip_stops (py_str R (get gps ''trip_id'')) idx)
      \<and> (\<forall>i < length (get_trip_stops (py_str R (get gps ''trip_id'')) idx).
           stu_stop_sequence (stop_time_updates_of m ! i)
             = ts_stop_sequence (get_trip_stops (py_str R (get gps ''trip_id'')) idx ! i)
         \<and> stu_stop_id (stop_time_updates_of m ! i)
             = ts_stop_id (get_trip_stops (py_str R (get gps ''trip_id'')) idx ! i)
         \<and> stu_schedule_relationship (stop_time_updates_of m ! i) = 0
         \<and> event_time_ok R clk
             (ts_arrival_time (get_trip_stops (py_str R (get gps ''trip_id'')) idx ! i))
             (stu_arrival (stop_time_updates_of m ! i))
         \<and> event_time_ok R clk
             (ts_departure_time (get_trip_stops (py_str R (get gps ''trip_id'')) idx ! i))
             (stu_departure (stop_time_updates_of m ! i))))"
proof (intro conjI impI)
  let ?stops = "get_trip_stops (py_str R (get gps ''trip_id'')) idx"
  { assume a: "clock_in_range clk \<and> trip_update_buildable R gps idx"
    then obtain hdr where hdr: "new_header clk = Inr hdr" using new_header_in_range by blast
    from a obtain d where d: "py_int R (get_or gps ''direction_id'' (PInt 0)) = Inr d"
      and dr: "0 \<le> d \<and> d < 2 ^ 32"
      by (auto simp: trip_update_buildable_def split: sum.splits)
    from a have "list_all (\<lambda>stop. 0 \<le> ts_stop_sequence stop \<and> ts_stop_sequence stop < 2 ^ 32) ?stops"
      by (simp add: trip_update_buildable_def)
    with a obtain updates where "stop_time_updates R clk ?stops = Inr updates"
      using stop_time_updates_in_range by blast
    with hdr d dr show "\<exists>m. create_trip_update R clk gps idx = Inr m"
      by (simp add: create_trip_update_def Let_def uint32_def) }
  { assume "create_trip_update R clk gps idx = Inr m"
    from create_trip_update_Inr [OF this] obtain d updates e u where
      d: "py_int R (get_or gps ''direction_id'' (PInt 0)) = Inr d" "0 \<le> d" "d < 2 ^ 32"
      and us: "stop_time_updates R clk ?stops = Inr updates"
      and m: "entity m = [e]" "e_body e = TripUpdate u" "tu_stop_time_update u = updates"
      by (elim exE conjE)
    from m have of_m: "stop_time_updates_of m = updates" by (simp add: stop_time_updates_of_def)
    show "trip_update_buildable R gps idx"
      using d stop_time_updates_sequences [OF us] by (simp add: trip_update_buildable_def)
    show "length (stop_time_updates_of m) = length ?stops"
      using stop_time_updates_length [OF us] of_m by simp
    show "\<forall>i < length ?stops.
           stu_stop_sequence (stop_time_updates_of m ! i) = ts_stop_sequence (?stops ! i)
         \<and> stu_stop_id (stop_time_updates_of m ! i) = ts_stop_id (?stops ! i)
         \<and> stu_schedule_relationship (stop_time_updates_of m ! i) = 0
         \<and> event_time_ok R clk (ts_arrival_time (?stops ! i)) (stu_arrival (stop_time_updates_of m ! i))
         \<and> event_time_ok R clk (ts_departure_time (?stops ! i))
             (stu_departure (stop_time_updates_of m ! i))"
      using stop_time_updates_nth [OF us] of_m by simp }
qed

text \<open>A trip with a time that parses, a time past midnight and an empty time: the parsed
  timestamp, the clock, and nothing. A trip whose one stop has the sequence number \<open>-1\<close>:
  \<^verbatim>\<open>ValueError\<close>.\<close>

theorem trip_update_stop_times_witness:
  "clock_in_range sample_clock
   \<and> trip_update_buildable sample_runtime resolved_fix times_index
   \<and> (case create_trip_update sample_runtime sample_clock resolved_fix times_index of
        Inl e \<Rightarrow> False
      | Inr m \<Rightarrow>
          stop_time_updates_of m =
            [\<lparr>stu_stop_sequence = 1, stu_stop_id = ''A'', stu_arrival = Some 1705305600,
              stu_departure = Some 1705305900, stu_schedule_relationship = 0\<rparr>,
             \<lparr>stu_stop_sequence = 2, stu_stop_id = ''B'', stu_arrival = Some 1705307400,
              stu_departure = Some 1705307400, stu_schedule_relationship = 0\<rparr>,
             \<lparr>stu_stop_sequence = 3, stu_stop_id = ''C'', stu_arrival = None,
              stu_departure = None, stu_schedule_relationship = 0\<rparr>])
   \<and> process_gtfs_data sample_runtime gtfs_negative = Inr negative_index
   \<and> \<not> trip_update_buildable sample_runtime resolved_fix negative_index
   \<and> create_trip_update sample_runtime sample_clock resolved_fix negative_index = Inl ValueError"
proof -
  have c: "clock_in_range sample_clock"
    by (simp add: clock_in_range_def trunc_def sample_clock_def)
  have b: "trip_update_buildable sample_runtime resolved_fix times_index"
    by (simp add: trip_update_buildable_def example_defs resolved_fix_def fix_of_def get_or_def get_def)
  from trip_update_stop_times [of sample_clock sample_runtime resolved_fix times_index] c b
  obtain m where m: "create_trip_update sample_runtime sample_clock resolved_fix times_index = Inr m"
    by blast
  then have "stop_time_updates_of m =
            [\<lparr>stu_stop_sequence = 1, stu_stop_id = ''A'', stu_arrival = Some 1705305600,
              stu_departure = Some 1705305900, stu_schedule_relationship = 0\<rparr>,
             \<lparr>stu_stop_sequence = 2, stu_stop_id = ''B'', stu_arrival = Some 1705307400,
              stu_departure = Some 1705307400, stu_schedule_relationship = 0\<rparr>,
             \<lparr>stu_stop_sequence = 3, stu_stop_id = ''C'', stu_arrival = None,
              stu_departure = None, stu_schedule_relationship = 0\<rparr>]"
    by (auto simp: builder_defs example_defs fix_of_def get_or_def get_def sample_clock_def)
  moreover have n: "\<not> trip_update_buildable sample_runtime resolved_fix negative_index"
    by (simp add: trip_update_buildable_def example_defs resolved_fix_def fix_of_def get_or_def get_def)
  moreover have "create_trip_update sample_runtime sample_clock resolved_fix negative_index = Inl ValueError"
    by (simp add: builder_defs example_defs fix_of_def get_or_def get_def sample_clock_def)
  ultimately show ?thesis using c b m negative_index_built by simp
qed

text \<open>
  C6 as stated fails: for the stop whose arrival time is empty, today's date with that time
  does not parse, and the arrival of its stop-time update is unset, not the current time.
\<close>

theorem empty_time_unset_counterexample:
  "map ts_arrival_time (get_trip_stops ''T1'' times_index)
     = [PStr ''08:00:00'', PStr ''25:10:00'', PStr '''']
   \<and> strptime_ts sample_runtime (ymd sample_clock @ '' '' @ py_str sample_runtime (PStr '''')) = None
   \<and> (case create_trip_update sample_runtime sample_clock resolved_fix times_index of
        Inl e \<Rightarrow> False
      | Inr m \<Rightarrow>
          map stu_arrival (stop_time_updates_of m) = [Some 1705305600, Some 1705307400, None])
   \<and> trunc (now sample_clock) = 1705307400"
  by (simp add: builder_defs example_defs fix_of_def get_or_def get_def sample_clock_def)

text \<open>
  C7. Every message that one of the three builders returns has the version \<^verbatim>\<open>2.0\<close> and a
  timestamp in its header, and exactly one entity, of the builder's kind.
\<close>

theorem feed_message_structure:
  "(create_vehicle_position R clk gps previous_positions = (Inr m, positions') \<longrightarrow>
      gtfs_realtime_version (header m) = ''2.0'' \<and> h_timestamp (header m) = Some (trunc (now clk))
      \<and> (\<exists>e v. entity m = [e] \<and> e_body e = Vehicle v))
   \<and> (create_trip_update R clk gps idx = Inr m \<longrightarrow>
      gtfs_realtime_version (header m) = ''2.0'' \<and> h_timestamp (header m) = Some (trunc (now clk))
      \<and> (\<exists>e u. entity m = [e] \<and> e_body e = TripUpdate u))
   \<and> (create_service_alert R clk fresh a = Inr m \<longrightarrow>
      gtfs_realtime_version (header m) = ''2.0'' \<and> h_timestamp (header m) = Some (trunc (now clk))
      \<and> (\<exists>e al. entity m = [e] \<and> e_body e = Alert al))"
proof (intro conjI impI)
  assume "create_vehicle_position R clk gps previous_positions = (Inr m, positions')"
  then have "new_header clk = Inr (header m) \<and> (\<exists>e v. entity m = [e] \<and> e_body e = Vehicle v)"
    by (auto simp: create_vehicle_position_def split: sum.splits prod.splits)
  then show "gtfs_realtime_version (header m) = ''2.0''"
    "h_timestamp (header m) = Some (trunc (now clk))"
    "\<exists>e v. entity m = [e] \<and> e_body e = Vehicle v"
    using new_header_Inr [of clk "header m"] by simp_all
next
  assume "create_trip_update R clk gps idx = Inr m"
  then have "new_header clk = Inr (header m) \<and> (\<exists>e v. entity m = [e] \<and> e_body e = TripUpdate v)"
    by (auto simp: create_trip_update_def Let_def split: sum.splits)
  then show "gtfs_realtime_version (header m) = ''2.0''"
    "h_timestamp (header m) = Some (trunc (now clk))"
    "\<exists>e v. entity m = [e] \<and> e_body e = TripUpdate v"
    using new_header_Inr [of clk "header m"] by simp_all
next
  assume "create_service_alert R clk fresh a = Inr m"
  then have "new_header clk = Inr (header m) \<and> (\<exists>e v. entity m = [e] \<and> e_body e = Alert v)"
    by (auto simp: create_service_alert_def Let_def split: sum.splits)
  then show "gtfs_realtime_version (header m) = ''2.0''"
    "h_timestamp (header m) = Some (trunc (now clk))"
    "\<exists>e v. entity m = [e] \<and> e_body e = Alert v"
    using new_header_Inr [of clk "header m"] by simp_all
qed

text \<open>The three builders on the example telemetry, index and alert: each returns a message,
  with the header and the single entity of its kind.\<close>

theorem feed_message_structure_witness:
  "(\<exists>m s. create_vehicle_position sample_runtime sample_clock resolved_fix Map.empty = (Inr m, s)
      \<and> header m = \<lparr>gtfs_realtime_version = ''2.0'', h_timestamp = Some 1705307400\<rparr>
      \<and> map e_id (entity m) = [''bus1''])
   \<and> (\<exists>m. create_trip_update sample_runtime sample_clock resolved_fix times_index = Inr m
      \<and> header m = \<lparr>gtfs_realtime_version = ''2.0'', h_timestamp = Some 1705307400\<rparr>
      \<and> map e_id (entity m) = [''trip_T1''])
   \<and> (\<exists>m. create_service_alert sample_runtime sample_clock (no_uuid 0) sample_alert = Inr m
      \<and> header m = \<lparr>gtfs_realtime_version = ''2.0'', h_timestamp = Some 1705307400\<rparr>
      \<and> map e_id (entity m) = [''alert_a1''])"
proof -
  have t: "trunc (now sample_clock) = 1705307400" by (simp add: trunc_def sample_clock_def)
  have "\<exists>m s. create_vehicle_position sample_runtime sample_clock resolved_fix Map.empty = (Inr m, s)
      \<and> map e_id (entity m) = [''bus1'']"
    by (simp add: create_vehicle_position_def resolved_fix_def position_defs new_header_def
        uint32_def uint64_def trunc_def)
  then obtain m1 s1
    where m1: "create_vehicle_position sample_runtime sample_clock resolved_fix Map.empty = (Inr m1, s1)"
    and i1: "map e_id (entity m1) = [''bus1'']"
    by (elim exE conjE)
  have "\<exists>m. create_trip_update sample_runtime sample_clock resolved_fix times_index = Inr m
      \<and> map e_id (entity m) = [''trip_T1'']"
    by (simp add: builder_defs example_defs fix_of_def get_or_def get_def sample_clock_def)
  then obtain m2
    where m2: "create_trip_update sample_runtime sample_clock resolved_fix times_index = Inr m2"
    and i2: "map e_id (entity m2) = [''trip_T1'']"
    by (elim exE conjE)
  have "\<exists>m. create_service_alert sample_runtime sample_clock (no_uuid 0) sample_alert = Inr m
      \<and> map e_id (entity m) = [''alert_a1'']"
    by (simp add: builder_defs get_or_def sample_clock_def sample_runtime_def)
  then obtain m3
    where m3: "create_service_alert sample_runtime sample_clock (no_uuid 0) sample_alert = Inr m3"
    and i3: "map e_id (entity m3) = [''alert_a1'']"
    by (elim exE conjE)
  have "header m1 = \<lparr>gtfs_realtime_version = ''2.0'', h_timestamp = Some 1705307400\<rparr>"
    using feed_message_structure [of sample_runtime sample_clock resolved_fix Map.empty m1 s1] m1 t
    by simp
  moreover have "header m2 = \<lparr>gtfs_realtime_version = ''2.0'', h_timestamp = Some 1705307400\<rparr>"
    using feed_message_structure [of sample_runtime sample_clock resolved_fix _ m2 _ times_index] m2 t
    by simp
  moreover have "header m3 = \<lparr>gtfs_realtime_version = ''2.0'', h_timestamp = Some 1705307400\<rparr>"
    using feed_message_structure [of sample_runtime sample_clock _ _ m3 _ _ "no_uuid 0" sample_alert] m3 t
    by simp
  ultimately show ?thesis using m1 i1 m2 i2 m3 i3 by simp
qed

subsection \<open>The synthesis cycle\<close>

lemmas config_defs = sample_config_def telemetry_on_def fix_of_def get_vehicle_info_def routes_of_def
  trips_of_def get_def get_or_def

lemmas cycle_defs = process_data_def fetch_gtfs_static_def select_trip_def three_trips_def
  mk_trip_def index_def build_feeds_def create_vehicle_position_def create_trip_update_def
  set_position_def bearing_of_def sample_clock_def Let_def new_header_def uint32_def uint64_def
  int64_def trunc_def stop_event_time_def

text \<open>
  C8. When the route of the telemetry is not among the routes configured for the vehicle,
  or the route that matches has an empty trip list, the cycle returns at context
  resolution: nothing is built or handed to \<^verbatim>\<open>save_protobuf\<close>, and \<^verbatim>\<open>previous_positions\<close> is as
  it was.
\<close>

theorem abort_at_context_resolution:
  assumes "map_of (routes_of (get_vehicle_info R cfg (get telemetry ''device_id'')))
             (py_str R (get telemetry ''route_id'')) = None
         \<or> (\<exists>route. map_of (routes_of (get_vehicle_info R cfg (get telemetry ''device_id'')))
               (py_str R (get telemetry ''route_id'')) = Some route \<and> trips_of route = [])"
  shows "process_data R cfg clk fresh telemetry fetched previous_positions
         = \<lparr>c_outcome = Returned, c_saved = [], c_positions = previous_positions\<rparr>"
  using assms
  by (auto simp: process_data_def Let_def aborted_def select_trip_def split: option.splits)

text \<open>Route R9 is not configured for the vehicle, and route R2 has no trips.\<close>

theorem abort_at_context_resolution_witness:
  "process_data sample_runtime sample_config sample_clock no_uuid (telemetry_on ''R9'')
     (Some gtfs_reversed) (stored_fix ''bus1'' 40 (-75) 1705307370)
    = \<lparr>c_outcome = Returned, c_saved = [], c_positions = stored_fix ''bus1'' 40 (-75) 1705307370\<rparr>
   \<and> process_data sample_runtime sample_config sample_clock no_uuid (telemetry_on ''R2'')
     (Some gtfs_reversed) (stored_fix ''bus1'' 40 (-75) 1705307370)
    = \<lparr>c_outcome = Returned, c_saved = [], c_positions = stored_fix ''bus1'' 40 (-75) 1705307370\<rparr>"
proof -
  have a: "map_of (routes_of (get_vehicle_info sample_runtime sample_config
                    (get (telemetry_on ''R9'') ''device_id'')))
             (py_str sample_runtime (get (telemetry_on ''R9'') ''route_id'')) = None"
    by (simp add: config_defs)
  have b: "map_of (routes_of (get_vehicle_info sample_runtime sample_config
                    (get (telemetry_on ''R2'') ''device_id'')))
             (py_str sample_runtime (get (telemetry_on ''R2'') ''route_id''))
           = Some \<lparr>ri_trips = Some []\<rparr>
           \<and> trips_of \<lparr>ri_trips = Some []\<rparr> = []"
    by (simp add: config_defs)
  show ?thesis
    using abort_at_context_resolution [of sample_runtime sample_config "telemetry_on ''R9''"] a
      abort_at_context_resolution [of sample_runtime sample_config "telemetry_on ''R2''"] b
    by blast
qed

lemma process_gtfs_data_no_alerts: "process_gtfs_data R g = Inr p \<Longrightarrow> alerts p = None"
  by (auto simp: process_gtfs_data_def Let_def split: sum.splits)

lemma fetch_no_alerts: "fetch_gtfs_static R fetched = Some p \<Longrightarrow> alerts p = None"
  by (auto simp: fetch_gtfs_static_def process_gtfs_data_no_alerts split: option.splits sum.splits)

lemma vehicle_no_alert:
  "create_vehicle_position R clk gps pp = (Inr m, pp') \<Longrightarrow> \<not> has_alert m"
  by (auto simp: create_vehicle_position_def has_alert_def split: sum.splits prod.splits)

lemma trip_update_no_alert:
  "create_trip_update R clk gps idx = Inr m \<Longrightarrow> \<not> has_alert m"
  by (auto simp: create_trip_update_def has_alert_def Let_def split: sum.splits)

lemma build_feeds_no_alert:
  assumes "alerts idx = None"
  shows "no_alert_saved (c_saved (build_feeds R clk fresh gps idx pp))"
  using assms
  by (auto simp: build_feeds_def no_alert_saved_def Let_def vehicle_no_alert trip_update_no_alert
      split: sum.splits prod.splits)

text \<open>
  C10. The schedule that \<^verbatim>\<open>process_gtfs_data\<close> returns has no \<^verbatim>\<open>alerts\<close> key, so in no cycle does
  \<^verbatim>\<open>process_data\<close> build or save a service alert: no saved message has the kind
  \<^verbatim>\<open>service_alert\<close> or an alert entity.
\<close>

theorem no_alert_emitted:
  "(process_gtfs_data R g = Inr p \<longrightarrow> alerts p = None)
   \<and> no_alert_saved (c_saved (process_data R cfg clk fresh telemetry fetched previous_positions))"
proof
  show "process_gtfs_data R g = Inr p \<longrightarrow> alerts p = None"
    by (simp add: process_gtfs_data_no_alerts)
next
  have e: "no_alert_saved []" by (simp add: no_alert_saved_def)
  show "no_alert_saved (c_saved (process_data R cfg clk fresh telemetry fetched previous_positions))"
  proof (cases "fetch_gtfs_static R fetched")
    case None
    then show ?thesis by (simp add: process_data_def Let_def aborted_def e)
  next
    case (Some idx)
    then have "alerts idx = None" by (rule fetch_no_alerts)
    then have "\<And>gps. no_alert_saved (c_saved (build_feeds R clk fresh gps idx previous_positions))"
      by (rule build_feeds_no_alert)
    then show ?thesis using Some
      by (simp add: process_data_def Let_def aborted_def raised_def e
          split: option.splits sum.splits)
  qed
qed

text \<open>A whole cycle on route R1: the vehicle position and the trip update are saved, and
  nothing else.\<close>

theorem no_alert_emitted_witness:
  "process_gtfs_data sample_runtime gtfs_reversed = Inr reversed_index
   \<and> alerts reversed_index = None
   \<and> map snd (c_saved (process_data sample_runtime sample_config sample_clock no_uuid
        (telemetry_on ''R1'') (Some gtfs_reversed) Map.empty))
      = [''vehicle_position'', ''trip_update'']
   \<and> no_alert_saved (c_saved (process_data sample_runtime sample_config sample_clock no_uuid
        (telemetry_on ''R1'') (Some gtfs_reversed) Map.empty))"
proof -
  note t = no_alert_emitted [of sample_runtime gtfs_reversed reversed_index sample_config
      sample_clock no_uuid "telemetry_on ''R1''" "Some gtfs_reversed" Map.empty]
  have "alerts reversed_index = None"
    using t reversed_index_built by blast
  moreover have "map snd (c_saved (process_data sample_runtime sample_config sample_clock no_uuid
        (telemetry_on ''R1'') (Some gtfs_reversed) Map.empty))
      = [''vehicle_position'', ''trip_update'']"
    by (simp add: cycle_defs config_defs example_defs)
  ultimately show ?thesis using t reversed_index_built by simp
qed

end
